theory Spec2Isabelle
  imports Main "HOL-Library.AList"
begin

section \<open>Python values\<close>

text \<open>
  The providers work on JSON-shaped Python values: parameter dictionaries supplied by the
  caller and response bodies returned by the vendors. A Python \<open>float\<close> is an IEEE double,
  hence either a dyadic rational \<open>m * 2 ^ e\<close>, an infinity or a NaN. A \<open>dict\<close> is an
  association list in insertion order; \<open>AList.update\<close> overwrites a present key in place
  and appends an absent one, as assignment to a Python dictionary does. A string is a
  list of characters with code points below 256, classified as Python classifies them.
\<close>

datatype pyfloat = Finite int int | Inf bool | NaN

datatype pyval =
    VNone
  | VBool bool
  | VInt int
  | VFloat pyfloat
  | VStr string
  | VList "pyval list"
  | VDict "(string \<times> pyval) list"

type_synonym dict = "(string \<times> pyval) list"

text \<open>
  Every \<open>raise\<close> of the sources and every exception of a builtin they call is a value.
  The sources raise \<open>ValueError\<close> with a message; the constructor records which raise site
  it was and the data interpolated into the message.
\<close>

datatype error =
    UnsupportedModel string "string list"
  | MissingParameter string
  | ApiKeyNotConfigured
  | KeysNotConfigured
  | NoTaskId pyval
  | VendorError pyval
  | TaskFailed pyval
  | TaskTimeout pyval
  | HttpError nat
  | ApiError error
  | TransportError
  | JSONDecodeError
  | TypeError
  | AttributeError
  | KeyError string
  | IntValueError
  | OverflowError
  | OSError
  | NotFound string
  | InternalServerError error
  | HTTPStatusError nat
  | UnsupportedEndpoint string

definition and_then :: "error + 'a \<Rightarrow> ('a \<Rightarrow> error + 'b) \<Rightarrow> error + 'b" where
  "and_then m f = (case m of Inl e \<Rightarrow> Inl e | Inr x \<Rightarrow> f x)"

subsection \<open>Builtins on strings\<close>

definition is_space :: "char \<Rightarrow> bool" where
  "is_space c = ((of_char c :: nat) \<in> {9, 10, 11, 12, 13, 28, 29, 30, 31, 32, 133, 160})"

definition is_digit :: "char \<Rightarrow> bool" where
  "is_digit c = (48 \<le> (of_char c :: nat) \<and> (of_char c :: nat) \<le> 57)"

definition digit_val :: "char \<Rightarrow> nat" where
  "digit_val c = of_char c - 48"

text \<open>\<open>s.strip()\<close>\<close>

definition strip :: "string \<Rightarrow> string" where
  "strip s = rev (dropWhile is_space (rev (dropWhile is_space s)))"

text \<open>\<open>s.split(c)\<close> for a separator of one character\<close>

fun split_on :: "char \<Rightarrow> string \<Rightarrow> string list" where
  "split_on c [] = [[]]"
| "split_on c (x # xs) =
     (if x = c then [] # split_on c xs
      else (case split_on c xs of [] \<Rightarrow> [[x]] | p # ps \<Rightarrow> (x # p) # ps))"

text \<open>\<open>sep.join(parts)\<close>\<close>

fun join :: "string \<Rightarrow> string list \<Rightarrow> string" where
  "join sep [] = []"
| "join sep [p] = p"
| "join sep (p # q # ps) = p @ sep @ join sep (q # ps)"

text \<open>\<open>s.lower()\<close>\<close>

definition lower_char :: "char \<Rightarrow> char" where
  "lower_char c =
     (let n = (of_char c :: nat) in
      if (65 \<le> n \<and> n \<le> 90) \<or> (192 \<le> n \<and> n \<le> 222 \<and> n \<noteq> 215)
      then char_of (n + 32) else c)"

definition lower :: "string \<Rightarrow> string" where
  "lower s = map lower_char s"

text \<open>\<open>k in s\<close> for two strings: \<open>k\<close> occurs in \<open>s\<close> as a contiguous substring\<close>

fun is_prefix :: "string \<Rightarrow> string \<Rightarrow> bool" where
  "is_prefix [] s = True"
| "is_prefix (k # ks) [] = False"
| "is_prefix (k # ks) (c # cs) = (k = c \<and> is_prefix ks cs)"

fun is_substring :: "string \<Rightarrow> string \<Rightarrow> bool" where
  "is_substring k [] = (k = [])"
| "is_substring k (c # cs) = (is_prefix k (c # cs) \<or> is_substring k cs)"

text \<open>
  \<open>int(s)\<close> for a string is the interpreter's: which strings it reads as a numeral
  depends on the version of CPython and on its configured limit on the number of digits.
  The providers are therefore modelled over an arbitrary reader
  \<open>int_str :: string \<Rightarrow> int option\<close>, where \<open>None\<close> stands for the \<open>ValueError\<close> of a
  string that is not a numeral, and the properties below hold for every reader.

  \<open>int_of_string\<close> is the reader of CPython 3.11 on the strings of this model. White space
  around the numeral is skipped: the six ASCII blanks and the code points 133 and 160, but
  not the separators 28 to 31, which \<open>strip\<close> removes. One sign is allowed, directly before
  the digits. The decimal digits may be grouped by single underscores. With a digit limit
  \<open>max_str_digits\<close> other than 0, a numeral of more digits than the limit is refused;
  leading zeros count as digits, underscores do not. The interpreter's default limit is 4300.
\<close>

type_synonym int_reader = "string \<Rightarrow> int option"

definition is_int_space :: "char \<Rightarrow> bool" where
  "is_int_space c = ((of_char c :: nat) \<in> {9, 10, 11, 12, 13, 32, 133, 160})"

fun parse_digits :: "nat \<Rightarrow> string \<Rightarrow> nat option" where
  "parse_digits acc [] = Some acc"
| "parse_digits acc [c] = (if is_digit c then Some (10 * acc + digit_val c) else None)"
| "parse_digits acc (c # d # cs) =
     (if is_digit c then parse_digits (10 * acc + digit_val c) (d # cs)
      else if c = CHR ''_'' \<and> is_digit d then parse_digits (10 * acc + digit_val d) cs
      else None)"

definition parse_nat :: "nat \<Rightarrow> string \<Rightarrow> nat option" where
  "parse_nat max_str_digits s =
     (case s of [] \<Rightarrow> None
      | c # cs \<Rightarrow>
          if 0 < max_str_digits \<and> max_str_digits < length (filter is_digit s) then None
          else if is_digit c then parse_digits (digit_val c) cs else None)"

definition int_of_string :: "nat \<Rightarrow> int_reader" where
  "int_of_string max_str_digits s =
     (let t = rev (dropWhile is_int_space (rev (dropWhile is_int_space s))) in
      if t \<noteq> [] \<and> hd t = CHR ''-''
      then map_option (\<lambda>n. - int n) (parse_nat max_str_digits (tl t))
      else if t \<noteq> [] \<and> hd t = CHR ''+''
      then map_option int (parse_nat max_str_digits (tl t))
      else map_option int (parse_nat max_str_digits t))"

text \<open>\<open>str(n)\<close> for a natural number\<close>

fun string_of_nat :: "nat \<Rightarrow> string" where
  "string_of_nat n =
     (if n < 10 then [char_of (48 + n)]
      else string_of_nat (n div 10) @ [char_of (48 + n mod 10)])"

subsection \<open>Builtins on values\<close>

text \<open>\<open>int(f)\<close> of a finite float truncates towards zero.\<close>

definition trunc_dyadic :: "int \<Rightarrow> int \<Rightarrow> int" where
  "trunc_dyadic m e =
     (if 0 \<le> e then m * 2 ^ nat e
      else if 0 \<le> m then m div 2 ^ nat (- e)
      else - ((- m) div 2 ^ nat (- e)))"

fun py_int :: "int_reader \<Rightarrow> pyval \<Rightarrow> error + int" where
  "py_int int_str (VInt i) = Inr i"
| "py_int int_str (VBool b) = Inr (if b then 1 else 0)"
| "py_int int_str (VFloat (Finite m e)) = Inr (trunc_dyadic m e)"
| "py_int int_str (VFloat (Inf s)) = Inl OverflowError"
| "py_int int_str (VFloat NaN) = Inl IntValueError"
| "py_int int_str (VStr s) = (case int_str s of None \<Rightarrow> Inl IntValueError | Some i \<Rightarrow> Inr i)"
| "py_int int_str VNone = Inl TypeError"
| "py_int int_str (VList xs) = Inl TypeError"
| "py_int int_str (VDict d) = Inl TypeError"

text \<open>Truth value of a value, as \<open>if v\<close> and \<open>not v\<close> take it.\<close>

fun truthy :: "pyval \<Rightarrow> bool" where
  "truthy VNone = False"
| "truthy (VBool b) = b"
| "truthy (VInt i) = (i \<noteq> 0)"
| "truthy (VFloat (Finite m e)) = (m \<noteq> 0)"
| "truthy (VFloat (Inf s)) = True"
| "truthy (VFloat NaN) = True"
| "truthy (VStr s) = (s \<noteq> [])"
| "truthy (VList xs) = (xs \<noteq> [])"
| "truthy (VDict d) = (d \<noteq> [])"

text \<open>\<open>v == n\<close> for an integer literal \<open>n\<close>: booleans and floats compare by numeric value.\<close>

fun eq_int :: "pyval \<Rightarrow> int \<Rightarrow> bool" where
  "eq_int (VInt i) n = (i = n)"
| "eq_int (VBool b) n = ((if b then 1 else 0) = n)"
| "eq_int (VFloat (Finite m e)) n =
     (if 0 \<le> e then m * 2 ^ nat e = n else m = n * 2 ^ nat (- e))"
| "eq_int v n = False"

subsection \<open>Dictionaries\<close>

definition has_key :: "string \<Rightarrow> dict \<Rightarrow> bool" where
  "has_key k d = (map_of d k \<noteq> None)"

definition setitem :: "string \<Rightarrow> pyval \<Rightarrow> dict \<Rightarrow> dict" where
  "setitem k v d = AList.update k v d"

text \<open>\<open>d[k]\<close>\<close>

definition getitem :: "dict \<Rightarrow> string \<Rightarrow> error + pyval" where
  "getitem d k = (case map_of d k of None \<Rightarrow> Inl (KeyError k) | Some v \<Rightarrow> Inr v)"

text \<open>\<open>d.get(k, dflt)\<close>\<close>

definition get_or :: "dict \<Rightarrow> string \<Rightarrow> pyval \<Rightarrow> pyval" where
  "get_or d k dflt = (case map_of d k of None \<Rightarrow> dflt | Some v \<Rightarrow> v)"

text \<open>
  The same operations on a value that need not be a dictionary: \<open>k in v\<close> tests keys of
  a dictionary, elements of a list and substrings of a string; \<open>v.get(k, dflt)\<close> exists
  for dictionaries only; \<open>v[k]\<close> and \<open>v[k] = x\<close> with a string \<open>k\<close> are type errors on
  everything but a dictionary.
\<close>

fun py_contains :: "string \<Rightarrow> pyval \<Rightarrow> error + bool" where
  "py_contains k (VDict d) = Inr (has_key k d)"
| "py_contains k (VList xs) = Inr (VStr k \<in> set xs)"
| "py_contains k (VStr s) = Inr (is_substring k s)"
| "py_contains k v = Inl TypeError"

fun py_get :: "pyval \<Rightarrow> string \<Rightarrow> pyval \<Rightarrow> error + pyval" where
  "py_get (VDict d) k dflt = Inr (get_or d k dflt)"
| "py_get v k dflt = Inl AttributeError"

fun py_getitem :: "pyval \<Rightarrow> string \<Rightarrow> error + pyval" where
  "py_getitem (VDict d) k = getitem d k"
| "py_getitem v k = Inl TypeError"

fun py_setitem :: "pyval \<Rightarrow> string \<Rightarrow> pyval \<Rightarrow> error + pyval" where
  "py_setitem (VDict d) k x = Inr (VDict (setitem k x d))"
| "py_setitem v k x = Inl TypeError"

text \<open>Iteration \<open>for x in v\<close>: the elements of a list, the keys of a dictionary, the
  characters of a string.\<close>

fun py_iter :: "pyval \<Rightarrow> error + pyval list" where
  "py_iter (VList xs) = Inr xs"
| "py_iter (VDict d) = Inr (map (\<lambda>kv. VStr (fst kv)) d)"
| "py_iter (VStr s) = Inr (map (\<lambda>c. VStr [c]) s)"
| "py_iter v = Inl TypeError"

section \<open>Configuration\<close>

text \<open>The fields of \<open>Settings\<close> in \<open>app/core/config.py\<close> that the providers read.\<close>

record settings =
  DATA_DIR :: string
  ALIYUN_SUPPORTED_MODELS :: string
  LIBLIBAI_SUPPORTED_MODELS :: string
  ALIYUN_API_KEY :: string
  ALIYUN_API_URL :: string
  LIBLIBAI_ACCESS_KEY :: string
  LIBLIBAI_SECRET_KEY :: string
  LIBLIBAI_API_URL :: string

definition PROVIDER_SUPPORTED_MODELS :: "settings \<Rightarrow> (string \<times> string list) list" where
  "PROVIDER_SUPPORTED_MODELS st =
     [(''aliyun'', map strip (split_on CHR '','' (ALIYUN_SUPPORTED_MODELS st))),
      (''liblibai'', map strip (split_on CHR '','' (LIBLIBAI_SUPPORTED_MODELS st)))]"

text \<open>The class defaults; the data directory and the credentials depend on the deployment.\<close>

definition default_settings :: settings where
  "default_settings =
     \<lparr> DATA_DIR = ''/srv/image-service/data'',
       ALIYUN_SUPPORTED_MODELS = ''wanx2.1-t2i-turbo,wanx2.1-t2i-plus,wanx2.0-t2i-turbo'',
       LIBLIBAI_SUPPORTED_MODELS = ''star-3-alpha-t2i,star-3-alpha-i2i,liblib-custom'',
       ALIYUN_API_KEY = '''',
       ALIYUN_API_URL =
         ''https://dashscope.aliyuncs.com/api/v1/services/aigc/text2image/image-synthesis'',
       LIBLIBAI_ACCESS_KEY = '''',
       LIBLIBAI_SECRET_KEY = '''',
       LIBLIBAI_API_URL = ''https://openapi.liblibai.cloud'' \<rparr>"

section \<open>Provider A: \<open>AliyunProvider\<close>\<close>

definition aliyun_supported_models :: "settings \<Rightarrow> string list" where
  "aliyun_supported_models st =
     (case map_of (PROVIDER_SUPPORTED_MODELS st) ''aliyun'' of
        Some ms \<Rightarrow> ms
      | None \<Rightarrow> [''wanx2.1-t2i-turbo'', ''wanx2.1-t2i-plus'', ''wanx2.0-t2i-turbo''])"

subsection \<open>\<open>validate_parameters\<close>\<close>

text \<open>
  The blocks of \<open>validate_parameters\<close> after \<open>validated = parameters.copy()\<close>, one
  definition per block, each taking and returning the dictionary \<open>validated\<close>.
\<close>

definition put_model :: "string \<Rightarrow> dict \<Rightarrow> dict" where
  "put_model model validated = setitem ''model'' (VStr model) validated"

definition norm_size :: "dict \<Rightarrow> error + dict" where
  "norm_size validated =
     (if has_key ''size'' validated
      then and_then (getitem validated ''size'') (\<lambda>v. Inr (setitem ''size'' v validated))
      else Inr (setitem ''size'' (VStr ''1024*1024'') validated))"

definition norm_n :: "int_reader \<Rightarrow> dict \<Rightarrow> error + dict" where
  "norm_n int_str validated =
     (if has_key ''n'' validated
      then and_then (getitem validated ''n'') (\<lambda>v.
           and_then (py_int int_str v) (\<lambda>i.
           Inr (setitem ''n'' (VInt (min (max i 1) 4)) validated)))
      else Inr (setitem ''n'' (VInt 1) validated))"

definition norm_negative_prompt :: "dict \<Rightarrow> dict" where
  "norm_negative_prompt validated =
     (if \<not> has_key ''negative_prompt'' validated
      then setitem ''negative_prompt'' (VStr '''') validated else validated)"

definition norm_style :: "dict \<Rightarrow> dict" where
  "norm_style validated =
     (if \<not> has_key ''style'' validated
      then setitem ''style'' (VStr ''<auto>'') validated else validated)"

definition norm_ref :: "dict \<Rightarrow> dict" where
  "norm_ref validated =
     (if has_key ''ref_img'' validated
      then
        (let validated =
               (if \<not> has_key ''ref_strength'' validated
                then setitem ''ref_strength'' (VFloat (Finite 1 0)) validated else validated)
         in if \<not> has_key ''ref_mode'' validated
            then setitem ''ref_mode'' (VStr ''repaint'') validated else validated)
      else validated)"

definition norm_seed :: "int_reader \<Rightarrow> dict \<Rightarrow> error + dict" where
  "norm_seed int_str validated =
     (if has_key ''seed'' validated
      then and_then (getitem validated ''seed'') (\<lambda>v.
           and_then (py_int int_str v) (\<lambda>i.
           Inr (setitem ''seed'' (VInt i) validated)))
      else Inr validated)"

text \<open>Everything after the copy.\<close>

definition normalize :: "int_reader \<Rightarrow> string \<Rightarrow> dict \<Rightarrow> error + dict" where
  "normalize int_str model validated =
     and_then (norm_size (put_model model validated)) (\<lambda>validated.
     and_then (norm_n int_str validated) (\<lambda>validated.
     norm_seed int_str (norm_ref (norm_style (norm_negative_prompt validated)))))"

definition validate_parameters :: "int_reader \<Rightarrow> settings \<Rightarrow> string \<Rightarrow> dict \<Rightarrow> error + dict" where
  "validate_parameters int_str st model parameters =
     (if model \<notin> set (aliyun_supported_models st)
      then Inl (UnsupportedModel model (aliyun_supported_models st))
      else if \<not> has_key ''prompt'' parameters
      then Inl (MissingParameter ''prompt'')
      else normalize int_str model parameters)"

text \<open>
  The same function on a store of dictionary objects, to follow which object each
  statement writes to. An address is an index into the store; \<open>parameters\<close> is the
  address of the caller's dictionary. \<open>parameters.copy()\<close> allocates a new object with
  the same items, and every later statement assigns into that new object. The function
  never assigns into a nested value, so the items themselves are kept by value.
\<close>

type_synonym heap = "dict list"

definition dict_copy :: "nat \<Rightarrow> heap \<Rightarrow> nat \<times> heap" where
  "dict_copy p h = (length h, h @ [h ! p])"

definition validate_parameters_heap ::
  "int_reader \<Rightarrow> settings \<Rightarrow> string \<Rightarrow> nat \<Rightarrow> heap \<Rightarrow> heap \<times> (error + nat)" where
  "validate_parameters_heap int_str st model parameters h =
     (if model \<notin> set (aliyun_supported_models st)
      then (h, Inl (UnsupportedModel model (aliyun_supported_models st)))
      else if \<not> has_key ''prompt'' (h ! parameters)
      then (h, Inl (MissingParameter ''prompt''))
      else
        (case dict_copy parameters h of (validated, h) \<Rightarrow>
         let h = h[validated := put_model model (h ! validated)] in
         case norm_size (h ! validated) of Inl e \<Rightarrow> (h, Inl e) | Inr d \<Rightarrow>
         let h = h[validated := d] in
         case norm_n int_str (h ! validated) of Inl e \<Rightarrow> (h, Inl e) | Inr d \<Rightarrow>
         let h = h[validated := d];
             h = h[validated := norm_negative_prompt (h ! validated)];
             h = h[validated := norm_style (h ! validated)];
             h = h[validated := norm_ref (h ! validated)] in
         case norm_seed int_str (h ! validated) of Inl e \<Rightarrow> (h, Inl e) | Inr d \<Rightarrow>
         (h[validated := d], Inr validated)))"

subsection \<open>The request body of \<open>call_model\<close>\<close>

definition exclude_keys :: "string list" where
  "exclude_keys = [''model'', ''prompt'', ''negative_prompt'', ''ref_img'']"

definition special_params :: "(string \<times> string) list" where
  "special_params =
     [(''size'', ''size''), (''n'', ''n''), (''style'', ''style''), (''seed'', ''seed''),
      (''ref_strength'', ''ref_strength''), (''ref_mode'', ''ref_mode'')]"

text \<open>The body of the loop over \<open>special_params.items()\<close>.\<close>

definition add_special :: "dict \<Rightarrow> dict \<Rightarrow> string \<times> string \<Rightarrow> dict" where
  "add_special validated_params ps entry =
     (case map_of validated_params (fst entry) of
        None \<Rightarrow> ps
      | Some v \<Rightarrow> setitem (snd entry) v ps)"

text \<open>The body of the loop over \<open>validated_params.items()\<close>.\<close>

definition add_custom :: "dict \<Rightarrow> string \<times> pyval \<Rightarrow> dict" where
  "add_custom ps item =
     (if fst item \<notin> set exclude_keys \<and> fst item \<notin> set (map fst special_params)
      then setitem (fst item) (snd item) ps else ps)"

definition request_input :: "dict \<Rightarrow> error + dict" where
  "request_input validated_params =
     and_then (getitem validated_params ''prompt'') (\<lambda>prompt.
     and_then
       (if truthy (get_or validated_params ''negative_prompt'' VNone)
        then and_then (getitem validated_params ''negative_prompt'') (\<lambda>v.
             Inr (setitem ''negative_prompt'' v [(''prompt'', prompt)]))
        else Inr [(''prompt'', prompt)]) (\<lambda>inp.
     if truthy (get_or validated_params ''ref_img'' VNone)
     then and_then (getitem validated_params ''ref_img'') (\<lambda>v.
          Inr (setitem ''ref_image'' v inp))
     else Inr inp))"

definition request_parameters :: "dict \<Rightarrow> dict" where
  "request_parameters validated_params =
     foldl add_custom (foldl (add_special validated_params) [] special_params)
       validated_params"

definition build_request_data :: "dict \<Rightarrow> error + dict" where
  "build_request_data validated_params =
     and_then (getitem validated_params ''model'') (\<lambda>model.
     and_then (request_input validated_params) (\<lambda>inp.
     Inr [(''model'', model), (''input'', VDict inp),
          (''parameters'', VDict (request_parameters validated_params))]))"

text \<open>The keys that \<open>validate_parameters\<close> or \<open>call_model\<close> name.\<close>

definition recognized_keys :: "string list" where
  "recognized_keys =
     [''model'', ''prompt'', ''negative_prompt'', ''ref_img'', ''size'', ''n'', ''style'',
      ''seed'', ''ref_strength'', ''ref_mode'']"

section \<open>Provider B: \<open>LiblibAIProvider\<close>\<close>

definition liblibai_supported_models :: "settings \<Rightarrow> string list" where
  "liblibai_supported_models st =
     (case map_of (PROVIDER_SUPPORTED_MODELS st) ''liblibai'' of
        Some ms \<Rightarrow> ms
      | None \<Rightarrow> [''star-3-alpha-t2i'', ''star-3-alpha-i2i'', ''liblib-custom''])"

subsection \<open>\<open>validate_parameters\<close>\<close>

text \<open>
  \<open>if "generateParams" not in validated: validated["generateParams"] = {}\<close>
\<close>

definition ensure_generate_params :: "dict \<Rightarrow> dict" where
  "ensure_generate_params validated =
     (if \<not> has_key ''generateParams'' validated
      then setitem ''generateParams'' (VDict []) validated else validated)"

text \<open>
  \<open>if k not in validated["generateParams"]: validated["generateParams"][k] = v\<close>.
  The value under \<open>generateParams\<close> is whatever the caller supplied: the membership test
  and the assignment raise on a value that does not support them.
\<close>

definition gp_default :: "string \<Rightarrow> pyval \<Rightarrow> dict \<Rightarrow> error + dict" where
  "gp_default k v validated =
     and_then (getitem validated ''generateParams'') (\<lambda>gp.
     and_then (py_contains k gp) (\<lambda>present.
     if \<not> present
     then and_then (py_setitem gp k v) (\<lambda>gp'.
          Inr (setitem ''generateParams'' gp' validated))
     else Inr validated))"

text \<open>The same with the value read from \<open>validated[k]\<close>.\<close>

definition gp_copy :: "string \<Rightarrow> dict \<Rightarrow> error + dict" where
  "gp_copy k validated =
     and_then (getitem validated ''generateParams'') (\<lambda>gp.
     and_then (py_contains k gp) (\<lambda>present.
     if \<not> present
     then and_then (getitem validated k) (\<lambda>v.
          and_then (py_setitem gp k v) (\<lambda>gp'.
          Inr (setitem ''generateParams'' gp' validated)))
     else Inr validated))"

text \<open>
  \<open>if "aspectRatio" not in gp and "imageSize" not in gp: gp["aspectRatio"] = "portrait"\<close>
\<close>

definition aspect_default :: "dict \<Rightarrow> error + dict" where
  "aspect_default validated =
     and_then (getitem validated ''generateParams'') (\<lambda>gp.
     and_then (py_contains ''aspectRatio'' gp) (\<lambda>has_ratio.
     if has_ratio then Inr validated
     else and_then (py_contains ''imageSize'' gp) (\<lambda>has_size.
          if has_size then Inr validated
          else and_then (py_setitem gp ''aspectRatio'' (VStr ''portrait'')) (\<lambda>gp'.
               Inr (setitem ''generateParams'' gp' validated)))))"

definition template_default :: "string \<Rightarrow> dict \<Rightarrow> dict" where
  "template_default uuid validated =
     (if \<not> has_key ''templateUuid'' validated
      then setitem ''templateUuid'' (VStr uuid) validated else validated)"

definition validate_t2i :: "dict \<Rightarrow> error + dict" where
  "validate_t2i validated =
     (if \<not> has_key ''prompt'' validated then Inl (MissingParameter ''prompt'')
      else
        and_then (gp_copy ''prompt'' (ensure_generate_params validated)) (\<lambda>validated.
        and_then (aspect_default validated) (\<lambda>validated.
        and_then (gp_default ''imgCount'' (VInt 1) validated) (\<lambda>validated.
        Inr (template_default ''5d7e67009b344550bc1aa6ccbfa1d7f4'' validated)))))"

definition validate_i2i :: "dict \<Rightarrow> error + dict" where
  "validate_i2i validated =
     (if \<not> has_key ''prompt'' validated then Inl (MissingParameter ''prompt'')
      else if \<not> has_key ''sourceImage'' validated then Inl (MissingParameter ''sourceImage'')
      else
        and_then (gp_copy ''prompt'' (ensure_generate_params validated)) (\<lambda>validated.
        and_then (gp_copy ''sourceImage'' validated) (\<lambda>validated.
        and_then (gp_default ''width'' (VInt 768) validated) (\<lambda>validated.
        and_then (gp_default ''height'' (VInt 1024) validated) (\<lambda>validated.
        and_then (gp_default ''imgCount'' (VInt 1) validated) (\<lambda>validated.
        Inr (template_default ''07e00af4fc464c7ab55ff906f8acf1b7'' validated)))))))"

text \<open>\<open>v.lower()\<close> exists for strings only.\<close>

fun py_lower :: "pyval \<Rightarrow> error + string" where
  "py_lower (VStr s) = Inr (lower s)"
| "py_lower v = Inl AttributeError"

text \<open>The choice of the template of a custom checkpoint.\<close>

definition custom_template :: "dict \<Rightarrow> error + dict" where
  "custom_template validated =
     (if \<not> has_key ''templateUuid'' validated
      then
        and_then (py_lower (get_or validated ''baseModelType'' (VStr ''''))) (\<lambda>base_model_type.
        let is_f1 = (base_model_type = ''f.1'' \<or> base_model_type = ''f1'') in
        and_then (getitem validated ''generateParams'') (\<lambda>gp.
        and_then (py_contains ''sourceImage'' gp) (\<lambda>has_source.
        if has_source
        then (if is_f1
              then Inr (setitem ''templateUuid'' (VStr ''63b72710c9574457ba303d9d9b8df8bd'') validated)
              else Inr (setitem ''templateUuid'' (VStr ''9c7d531dc75f476aa833b3d452b8f7ad'') validated))
        else (if is_f1
              then Inr (setitem ''templateUuid'' (VStr ''6f7c4652458d4802969f8d089cf5b91f'') validated)
              else Inr (setitem ''templateUuid'' (VStr ''e10adc3949ba59abbe56e057f20f883e'') validated)))))
      else Inr validated)"

definition validate_custom :: "dict \<Rightarrow> error + dict" where
  "validate_custom validated =
     (if \<not> has_key ''checkPointId'' validated then Inl (MissingParameter ''checkPointId'')
      else if \<not> has_key ''prompt'' validated then Inl (MissingParameter ''prompt'')
      else
        and_then (gp_copy ''checkPointId'' (ensure_generate_params validated)) (\<lambda>validated.
        and_then (gp_copy ''prompt'' validated) (\<lambda>validated.
        and_then (gp_default ''sampler'' (VInt 15) validated) (\<lambda>validated.
        and_then (gp_default ''steps'' (VInt 20) validated) (\<lambda>validated.
        and_then (gp_default ''cfgScale'' (VInt 7) validated) (\<lambda>validated.
        and_then (gp_default ''width'' (VInt 768) validated) (\<lambda>validated.
        and_then (gp_default ''height'' (VInt 1024) validated) (\<lambda>validated.
        and_then (gp_default ''imgCount'' (VInt 1) validated) (\<lambda>validated.
        and_then (gp_default ''seed'' (VInt (- 1)) validated) (\<lambda>validated.
        custom_template validated))))))))))"

definition liblibai_validate_parameters :: "settings \<Rightarrow> string \<Rightarrow> dict \<Rightarrow> error + dict" where
  "liblibai_validate_parameters st model parameters =
     (if model \<notin> set (liblibai_supported_models st)
      then Inl (UnsupportedModel model (liblibai_supported_models st))
      else
        let validated = setitem ''model'' (VStr model) parameters in
        if model = ''star-3-alpha-t2i'' then validate_t2i validated
        else if model = ''star-3-alpha-i2i'' then validate_i2i validated
        else if model = ''liblib-custom'' then validate_custom validated
        else Inr validated)"

text \<open>The keys that each model of provider B requires, in the order of the checks.\<close>

definition liblibai_required_keys :: "string \<Rightarrow> string list" where
  "liblibai_required_keys model =
     (if model = ''star-3-alpha-t2i'' then [''prompt'']
      else if model = ''star-3-alpha-i2i'' then [''prompt'', ''sourceImage'']
      else if model = ''liblib-custom'' then [''checkPointId'', ''prompt'']
      else [])"

section \<open>The artifact locator: \<open>download_file\<close> in \<open>app/api/download.py\<close>\<close>


definition joinpath :: "string \<Rightarrow> string \<Rightarrow> string" where
  "joinpath d n = d @ ''/'' @ n"






section \<open>Provider B: the request signer\<close>

text \<open>
  Bytes are characters as well. \<open>s.encode()\<close> is UTF-8: a code point below 128 is one
  byte, a code point from 128 to 255 is two.
\<close>

definition utf8_encode :: "string \<Rightarrow> string" where
  "utf8_encode s =
     concat (map (\<lambda>c. let n = (of_char c :: nat) in
                       if n < 128 then [c]
                       else [char_of (192 + n div 64), char_of (128 + n mod 64)]) s)"

text \<open>
  \<open>base64.urlsafe_b64encode\<close> is \<open>b64encode\<close> followed by the translation of \<open>+\<close> and
  \<open>/\<close> to \<open>-\<close> and \<open>_\<close>. \<open>b64encode\<close> writes four characters for every three bytes and
  fills the last group with \<open>=\<close>.
\<close>

definition b64_alphabet :: string where
  "b64_alphabet = ''ABCDEFGHIJKLMNOPQRSTUVWXYZabcdefghijklmnopqrstuvwxyz0123456789+/''"

definition b64_char :: "nat \<Rightarrow> char" where
  "b64_char n = b64_alphabet ! n"

fun b64encode :: "string \<Rightarrow> string" where
  "b64encode [] = []"
| "b64encode [a] =
     (let x = (of_char a :: nat) in
      [b64_char (x div 4), b64_char ((x mod 4) * 16), CHR ''='', CHR ''=''])"
| "b64encode [a, b] =
     (let x = (of_char a :: nat); y = (of_char b :: nat) in
      [b64_char (x div 4), b64_char ((x mod 4) * 16 + y div 16), b64_char ((y mod 16) * 4),
       CHR ''=''])"
| "b64encode (a # b # c # rest) =
     (let x = (of_char a :: nat); y = (of_char b :: nat); z = (of_char c :: nat) in
      [b64_char (x div 4), b64_char ((x mod 4) * 16 + y div 16),
       b64_char ((y mod 16) * 4 + z div 64), b64_char (z mod 64)] @ b64encode rest)"

definition urlsafe_translation :: "char \<Rightarrow> char" where
  "urlsafe_translation c =
     (if c = CHR ''+'' then CHR ''-'' else if c = CHR ''/'' then CHR ''_'' else c)"

definition urlsafe_b64encode :: "string \<Rightarrow> string" where
  "urlsafe_b64encode s = map urlsafe_translation (b64encode s)"

text \<open>\<open>s.rstrip(c)\<close> for one character \<open>c\<close>\<close>

definition rstrip_char :: "char \<Rightarrow> string \<Rightarrow> string" where
  "rstrip_char c s = rev (dropWhile (\<lambda>x. x = c) (rev s))"

text \<open>
  \<open>generate_signature\<close>. The keyed hash \<open>hmac.new(key, msg, sha1).digest()\<close> is the
  library's and a parameter here, as are the two readings of the environment: the clock
  \<open>int(time.time() * 1000)\<close> and the random \<open>str(uuid.uuid4())\<close>.
\<close>

definition generate_signature ::
  "(string \<Rightarrow> string \<Rightarrow> string) \<Rightarrow> settings \<Rightarrow> nat \<Rightarrow> string \<Rightarrow> string \<Rightarrow> error + dict" where
  "generate_signature hmac_sha1 st time_millis uuid4 uri =
     (let access_key = LIBLIBAI_ACCESS_KEY st;
          secret_key = LIBLIBAI_SECRET_KEY st
      in
      if access_key = [] \<or> secret_key = [] then Inl KeysNotConfigured
      else
        let timestamp = string_of_nat time_millis;
            signature_nonce = uuid4;
            content = join ''&'' [uri, timestamp, signature_nonce];
            digest = hmac_sha1 (utf8_encode secret_key) (utf8_encode content);
            signature = rstrip_char CHR ''='' (urlsafe_b64encode digest)
        in Inr [(''AccessKey'', VStr access_key), (''Signature'', VStr signature),
                (''Timestamp'', VStr timestamp), (''SignatureNonce'', VStr signature_nonce)])"

text \<open>
  The encoding as the specification words it: base 64 in the URL-safe alphabet with no
  padding. Three bytes give four characters; a last group of one byte gives two
  characters and a last group of two bytes gives three.
\<close>

definition b64url_alphabet :: string where
  "b64url_alphabet = ''ABCDEFGHIJKLMNOPQRSTUVWXYZabcdefghijklmnopqrstuvwxyz0123456789-_''"

definition b64url_char :: "nat \<Rightarrow> char" where
  "b64url_char n = b64url_alphabet ! n"

fun b64url_unpadded :: "string \<Rightarrow> string" where
  "b64url_unpadded [] = []"
| "b64url_unpadded [a] =
     (let x = (of_char a :: nat) in [b64url_char (x div 4), b64url_char ((x mod 4) * 16)])"
| "b64url_unpadded [a, b] =
     (let x = (of_char a :: nat); y = (of_char b :: nat) in
      [b64url_char (x div 4), b64url_char ((x mod 4) * 16 + y div 16),
       b64url_char ((y mod 16) * 4)])"
| "b64url_unpadded (a # b # c # rest) =
     (let x = (of_char a :: nat); y = (of_char b :: nat); z = (of_char c :: nat) in
      [b64url_char (x div 4), b64url_char ((x mod 4) * 16 + y div 16),
       b64url_char ((y mod 16) * 4 + z div 64), b64url_char (z mod 64)] @
      b64url_unpadded rest)"

text \<open>A keyed hash for the examples: it returns the first two bytes of the message. The
  signer is proved for every keyed hash.\<close>

definition example_hmac :: "string \<Rightarrow> string \<Rightarrow> string" where
  "example_hmac key msg = take 2 msg"

section \<open>The vendors and the environment\<close>

text \<open>
  What \<open>call_model\<close> sees of a request to a vendor: \<open>raise_for_status()\<close> followed by
  \<open>json()\<close> gives the decoded body, or raises for the status code, or raises because the
  body is not JSON; the request itself can raise, for a connection that fails or times
  out.
\<close>

datatype http_reply = Json pyval | StatusError nat | NotJson | Transport

text \<open>
  The trace of a call of \<open>call_model\<close>: its requests to the vendor and its sleeps, in
  order. A request is recorded with its URL, its query parameters and what it sends: the
  JSON body of the request that creates the task, the task identifier of a status query.
\<close>

datatype event =
    CreateTask string dict pyval
  | QueryStatus string dict pyval
  | Sleep nat

text \<open>
  The environment of one call: the reply to the request that creates the task; the reply
  to the status query of iteration \<open>i\<close>; whether \<open>os.makedirs\<close> of the images directory
  succeeds; whether the download of the image at index \<open>i\<close> succeeds (the directory can
  be made, the request returns a success status and the file can be written); the
  readings of \<open>datetime.now()\<close> and of \<open>uuid.uuid4()\<close>; and for the signer of provider B the
  clock and the nonce of its \<open>k\<close>-th call, and the keyed hash.
\<close>

record world =
  create_reply :: http_reply
  status_reply :: "nat \<Rightarrow> http_reply"
  makedirs_ok :: bool
  download_ok :: "nat \<Rightarrow> bool"
  now_created :: string
  now_stamp :: "nat \<Rightarrow> string"
  uuid4_str :: string
  uuid4_hex8 :: "nat \<Rightarrow> string"
  clock_millis :: "nat \<Rightarrow> nat"
  signature_nonce :: "nat \<Rightarrow> string"
  keyed_hash :: "string \<Rightarrow> string \<Rightarrow> string"

text \<open>The reply after \<open>raise_for_status()\<close> and \<open>json()\<close>.\<close>

fun reply_json :: "http_reply \<Rightarrow> error + pyval" where
  "reply_json (Json v) = Inr v"
| "reply_json (StatusError code) = Inl (HTTPStatusError code)"
| "reply_json NotJson = Inl JSONDecodeError"
| "reply_json Transport = Inl TransportError"

text \<open>
  The handlers of the \<open>try\<close> of \<open>call_model\<close>: an \<open>HTTPStatusError\<close> becomes the
  \<open>ValueError\<close> of an HTTP error, every other exception, the \<open>ValueError\<close>s raised in the
  body among them, becomes the \<open>ValueError\<close> of an API error with the message of the
  exception in it.
\<close>

fun handle :: "error \<Rightarrow> error" where
  "handle (HTTPStatusError code) = HttpError code"
| "handle e = ApiError e"

text \<open>The outcome of one iteration of a loop: go on, return, or raise.\<close>

datatype 'a step = Continue | Return 'a | Raise error

text \<open>
  \<open>for i in range(...)\<close> with a body that can return or raise: the events of the
  iterations that ran, and how the loop was left.
\<close>

fun for_range :: "(nat \<Rightarrow> event list \<times> 'a step) \<Rightarrow> nat list \<Rightarrow> event list \<times> 'a step" where
  "for_range body [] = ([], Continue)"
| "for_range body (i # rest) =
     (case body i of
        (evs, Continue) \<Rightarrow> (case for_range body rest of (evs', s) \<Rightarrow> (evs @ evs', s))
      | (evs, s) \<Rightarrow> (evs, s))"

text \<open>
  \<open>download_image\<close>: the path of the saved file, or the empty string after any exception.
  A URL that is not a string makes the request raise.
\<close>

fun download_image :: "world \<Rightarrow> nat \<Rightarrow> pyval \<Rightarrow> string \<Rightarrow> string" where
  "download_image w i (VStr url) save_path = (if download_ok w i then save_path else '''')"
| "download_image w i url save_path = ''''"

section \<open>Provider A: \<open>call_model\<close>\<close>

subsection \<open>\<open>_format_response_and_download_images\<close>\<close>

definition aliyun_output :: "pyval \<Rightarrow> error + pyval" where
  "aliyun_output api_response =
     and_then (py_get api_response ''output'' (VDict [])) (\<lambda>output.
     if \<not> truthy output
     then and_then (py_contains ''result'' api_response) (\<lambda>has_result.
          if has_result then py_get api_response ''result'' (VDict []) else Inr output)
     else Inr output)"

definition aliyun_results :: "pyval \<Rightarrow> pyval \<Rightarrow> error + pyval" where
  "aliyun_results api_response output =
     and_then (py_contains ''results'' output) (\<lambda>has_results.
     if has_results then py_getitem output ''results''
     else
       and_then (py_contains ''task_metrics'' output) (\<lambda>has_metrics.
       if \<not> has_metrics then Inr (VList [])
       else
         and_then (py_get output ''task_metrics'' (VDict [])) (\<lambda>task_metrics.
         and_then (py_contains ''SUCCEEDED'' task_metrics) (\<lambda>succeeded.
         if \<not> succeeded then Inr (VList [])
         else
           and_then (py_contains ''result'' api_response) (\<lambda>has_result.
           if \<not> has_result then Inr (VList [])
           else
             and_then (py_getitem api_response ''result'') (\<lambda>result.
             py_get result ''results'' (VList [])))))))"

text \<open>
  The loop \<open>for i, result in enumerate(results)\<close>, from index \<open>i\<close> on: the entries of
  \<open>formatted_response["images"]\<close> that it appends.
\<close>

fun aliyun_images :: "world \<Rightarrow> string \<Rightarrow> nat \<Rightarrow> pyval list \<Rightarrow> error + pyval list" where
  "aliyun_images w images_dir i [] = Inr []"
| "aliyun_images w images_dir i (result # rest) =
     and_then (py_get result ''url'' (VStr '''')) (\<lambda>image_url.
     if \<not> truthy image_url then aliyun_images w images_dir (Suc i) rest
     else
       let file_name =
             now_stamp w i @ ''_'' @ string_of_nat i @ ''_'' @ uuid4_hex8 w i @ ''.png'';
           local_path = joinpath images_dir file_name;
           saved_path = download_image w i image_url local_path
       in
       and_then (py_get result ''seed'' VNone) (\<lambda>seed.
       let image_data =
             VDict [(''index'', VInt (int i)), (''url'', image_url),
                    (''local_path'', VStr saved_path), (''seed'', seed)]
       in
       and_then (aliyun_images w images_dir (Suc i) rest) (\<lambda>images.
       Inr (image_data # images))))"

text \<open>The size information at the end of the function.\<close>

definition aliyun_size :: "int_reader \<Rightarrow> dict \<Rightarrow> dict \<Rightarrow> error + dict" where
  "aliyun_size int_str original_params formatted_response =
     (if has_key ''size'' original_params
      then
        and_then (getitem original_params ''size'') (\<lambda>size.
        case size of
          VStr s \<Rightarrow>
            (let size_parts = split_on CHR ''*'' s in
             if length size_parts = 2
             then
               (case int_str (size_parts ! 0) of
                  None \<Rightarrow> Inr (setitem ''size'' size formatted_response)
                | Some width \<Rightarrow>
                    (let formatted_response = setitem ''width'' (VInt width) formatted_response in
                     case int_str (size_parts ! 1) of
                       None \<Rightarrow> Inr (setitem ''size'' size formatted_response)
                     | Some height \<Rightarrow> Inr (setitem ''height'' (VInt height) formatted_response)))
             else Inr (setitem ''size'' size formatted_response))
        | _ \<Rightarrow> Inl AttributeError)
      else Inr (setitem ''height'' (VInt 1024) (setitem ''width'' (VInt 1024) formatted_response)))"

definition aliyun_format_response_and_download_images ::
  "int_reader \<Rightarrow> settings \<Rightarrow> world \<Rightarrow> pyval \<Rightarrow> dict \<Rightarrow> error + dict" where
  "aliyun_format_response_and_download_images int_str st w api_response original_params =
     and_then (aliyun_output api_response) (\<lambda>output.
     and_then (py_get api_response ''task_id'' (VStr (uuid4_str w))) (\<lambda>task_id.
     and_then (py_get api_response ''request_id'' task_id) (\<lambda>response_id.
     and_then (aliyun_results api_response output) (\<lambda>results.
     let images_dir = joinpath (joinpath (DATA_DIR st) ''images'') ''aliyun'' in
     if \<not> makedirs_ok w then Inl OSError
     else
       and_then (py_iter results) (\<lambda>results.
       and_then (aliyun_images w images_dir 0 results) (\<lambda>images.
       let formatted_response =
             [(''id'', response_id),
              (''model'', get_or original_params ''model'' (VStr '''')),
              (''created'', VStr (now_created w)),
              (''images'', VList images)];
           formatted_response =
             setitem ''prompt'' (get_or original_params ''prompt'' (VStr '''')) formatted_response;
           formatted_response =
             (case map_of original_params ''negative_prompt'' of
                Some v \<Rightarrow> setitem ''negative_prompt'' v formatted_response
              | None \<Rightarrow> formatted_response)
       in aliyun_size int_str original_params formatted_response))))))"

subsection \<open>The polling loop\<close>

text \<open>
  The status of the task as the loop reads it off the reply: \<open>task_status\<close> at the top
  level, or under \<open>output\<close> when the top level has none.
\<close>

definition aliyun_task_status_value :: "pyval \<Rightarrow> error + pyval" where
  "aliyun_task_status_value task_status =
     and_then (py_get task_status ''task_status'' (VStr '''')) (\<lambda>task_status_value.
     if \<not> truthy task_status_value
     then and_then (py_contains ''output'' task_status) (\<lambda>has_output.
          if has_output
          then and_then (py_getitem task_status ''output'') (\<lambda>output.
               py_get output ''task_status'' (VStr ''''))
          else Inr task_status_value)
     else Inr task_status_value)"

definition aliyun_error_msg :: "pyval \<Rightarrow> error + pyval" where
  "aliyun_error_msg task_status =
     and_then (py_get task_status ''message'' (VStr ''Unknown error'')) (\<lambda>error_msg.
     and_then (py_contains ''output'' task_status) (\<lambda>has_output.
     if has_output
     then and_then (py_getitem task_status ''output'') (\<lambda>output.
          and_then (py_contains ''message'' output) (\<lambda>has_message.
          if has_message then py_getitem output ''message'' else Inr error_msg))
     else Inr error_msg))"

definition aliyun_success_statuses :: "pyval list" where
  "aliyun_success_statuses = [VStr ''SUCCEEDED'', VStr ''COMPLETE'', VStr ''SUCCESS'']"

definition aliyun_failure_statuses :: "pyval list" where
  "aliyun_failure_statuses = [VStr ''FAILED'', VStr ''CANCELLED'', VStr ''ERROR'']"

definition flatten_step :: "error + 'a step \<Rightarrow> 'a step" where
  "flatten_step r = (case r of Inl e \<Rightarrow> Raise e | Inr s \<Rightarrow> s)"

text \<open>What one iteration does after its status query has been answered.\<close>

definition aliyun_on_status ::
  "int_reader \<Rightarrow> settings \<Rightarrow> world \<Rightarrow> dict \<Rightarrow> pyval \<Rightarrow> dict step" where
  "aliyun_on_status int_str st w validated_params task_status =
     flatten_step
       (and_then (aliyun_task_status_value task_status) (\<lambda>task_status_value.
        if task_status_value \<in> set aliyun_success_statuses
        then and_then
               (aliyun_format_response_and_download_images int_str st w task_status
                  validated_params) (\<lambda>result. Inr (Return result))
        else if task_status_value \<in> set aliyun_failure_statuses
        then and_then (aliyun_error_msg task_status) (\<lambda>error_msg.
             Inl (TaskFailed error_msg))
        else Inr Continue))"

definition aliyun_tasks_url :: string where
  "aliyun_tasks_url = ''https://dashscope.aliyuncs.com/api/v1/tasks/''"

definition aliyun_poll_body ::
  "int_reader \<Rightarrow> settings \<Rightarrow> world \<Rightarrow> dict \<Rightarrow> pyval \<Rightarrow> nat \<Rightarrow> event list \<times> dict step" where
  "aliyun_poll_body int_str st w validated_params task_id i =
     ([Sleep 15, QueryStatus aliyun_tasks_url [] task_id],
      case reply_json (status_reply w i) of
        Inl e \<Rightarrow> Raise e
      | Inr task_status \<Rightarrow> aliyun_on_status int_str st w validated_params task_status)"

text \<open>The loop and the \<open>raise\<close> after it.\<close>

definition aliyun_poll ::
  "int_reader \<Rightarrow> settings \<Rightarrow> world \<Rightarrow> dict \<Rightarrow> pyval \<Rightarrow> event list \<times> (error + dict)" where
  "aliyun_poll int_str st w validated_params task_id =
     (case for_range (aliyun_poll_body int_str st w validated_params task_id) [0..<120] of
        (evs, Continue) \<Rightarrow> (evs, Inl (TaskTimeout task_id))
      | (evs, Return result) \<Rightarrow> (evs, Inr result)
      | (evs, Raise e) \<Rightarrow> (evs, Inl e))"

subsection \<open>\<open>call_model\<close>\<close>

text \<open>The body of the \<open>try\<close>.\<close>

definition aliyun_try ::
  "int_reader \<Rightarrow> settings \<Rightarrow> world \<Rightarrow> string \<Rightarrow> dict \<Rightarrow> event list \<times> (error + dict)" where
  "aliyun_try int_str st w api_url validated_params =
     (case build_request_data validated_params of
        Inl e \<Rightarrow> ([], Inl e)
      | Inr request_data \<Rightarrow>
          (let created = [CreateTask api_url [] (VDict request_data)] in
           case and_then (reply_json (create_reply w)) (\<lambda>task_result.
                and_then (py_get task_result ''output'' (VDict [])) (\<lambda>output.
                and_then (py_get output ''task_id'' VNone) (\<lambda>task_id.
                if \<not> truthy task_id then Inl (NoTaskId task_result) else Inr task_id))) of
             Inl e \<Rightarrow> (created, Inl e)
           | Inr task_id \<Rightarrow>
               (case aliyun_poll int_str st w validated_params task_id of
                  (evs, r) \<Rightarrow> (created @ evs, r))))"

definition aliyun_call_model ::
  "int_reader \<Rightarrow> settings \<Rightarrow> world \<Rightarrow> string \<Rightarrow> dict \<Rightarrow> event list \<times> (error + dict)" where
  "aliyun_call_model int_str st w model parameters =
     (case validate_parameters int_str st model parameters of
        Inl e \<Rightarrow> ([], Inl e)
      | Inr validated_params \<Rightarrow>
          (let api_key = ALIYUN_API_KEY st;
               api_url = ALIYUN_API_URL st
           in
           if api_key = [] then ([], Inl ApiKeyNotConfigured)
           else
             let api_url =
                   (if api_url = []
                    then ''https://dashscope.aliyuncs.com/api/v1/services/aigc/text2image/image-synthesis''
                    else api_url)
             in
             case aliyun_try int_str st w api_url validated_params of
               (evs, Inl e) \<Rightarrow> (evs, Inl (handle e))
             | (evs, Inr result) \<Rightarrow> (evs, Inr result)))"

section \<open>Provider B: \<open>call_model\<close>\<close>

subsection \<open>\<open>_format_response_and_download_images\<close>\<close>

text \<open>The loop \<open>for i, image_data in enumerate(images)\<close>, from index \<open>i\<close> on.\<close>

fun liblibai_images :: "world \<Rightarrow> string \<Rightarrow> nat \<Rightarrow> pyval list \<Rightarrow> error + pyval list" where
  "liblibai_images w images_dir i [] = Inr []"
| "liblibai_images w images_dir i (image_data # rest) =
     and_then (py_get image_data ''imageUrl'' (VStr '''')) (\<lambda>image_url.
     if \<not> truthy image_url then liblibai_images w images_dir (Suc i) rest
     else
       let file_name =
             ''liblibai_'' @ now_stamp w i @ ''_'' @ string_of_nat i @ ''_'' @ uuid4_hex8 w i @
             ''.png'';
           local_path = joinpath images_dir file_name;
           saved_path = download_image w i image_url local_path
       in
       and_then (py_get image_data ''seed'' VNone) (\<lambda>seed.
       and_then (py_get image_data ''auditStatus'' VNone) (\<lambda>audit_status.
       let image_info =
             VDict [(''index'', VInt (int i)), (''url'', image_url),
                    (''local_path'', VStr saved_path), (''seed'', seed),
                    (''auditStatus'', audit_status)]
       in
       and_then (liblibai_images w images_dir (Suc i) rest) (\<lambda>images.
       Inr (image_info # images)))))"

text \<open>The prompt and the size information at the end of the function.\<close>

definition liblibai_size :: "dict \<Rightarrow> dict \<Rightarrow> error + dict" where
  "liblibai_size original_params formatted_response =
     (let generate_params = get_or original_params ''generateParams'' (VDict []) in
      and_then (py_get generate_params ''prompt'' (VStr '''')) (\<lambda>prompt.
      let formatted_response = setitem ''prompt'' prompt formatted_response in
      and_then (py_contains ''negativePrompt'' generate_params) (\<lambda>has_negative.
      and_then
        (if has_negative
         then and_then (py_getitem generate_params ''negativePrompt'') (\<lambda>v.
              Inr (setitem ''negative_prompt'' v formatted_response))
         else Inr formatted_response) (\<lambda>formatted_response.
      and_then (py_contains ''width'' generate_params) (\<lambda>has_width.
      and_then (if has_width then py_contains ''height'' generate_params else Inr False)
        (\<lambda>has_both.
      if has_both
      then and_then (py_getitem generate_params ''width'') (\<lambda>width.
           and_then (py_getitem generate_params ''height'') (\<lambda>height.
           Inr (setitem ''height'' height (setitem ''width'' width formatted_response))))
      else
        and_then (py_contains ''imageSize'' generate_params) (\<lambda>has_image_size.
        if has_image_size
        then and_then (py_getitem generate_params ''imageSize'') (\<lambda>image_size.
             and_then (py_get image_size ''width'' (VInt 768)) (\<lambda>width.
             and_then (py_get image_size ''height'' (VInt 1024)) (\<lambda>height.
             Inr (setitem ''height'' height (setitem ''width'' width formatted_response)))))
        else Inr (setitem ''height'' (VInt 1024)
                    (setitem ''width'' (VInt 768) formatted_response)))))))))"

text \<open>
  The images directory of provider B is not under \<open>DATA_DIR\<close>: it is \<open>data/images/liblibai\<close>
  under \<open>base_dir\<close>, the directory three levels above the module.
\<close>

definition liblibai_format_response_and_download_images ::
  "string \<Rightarrow> world \<Rightarrow> pyval \<Rightarrow> dict \<Rightarrow> error + dict" where
  "liblibai_format_response_and_download_images base_dir w api_response original_params =
     and_then (py_get api_response ''generateUuid'' (VStr (uuid4_str w))) (\<lambda>response_id.
     and_then (py_get api_response ''pointsCost'' (VInt 0)) (\<lambda>points_cost.
     and_then (py_get api_response ''accountBalance'' (VInt 0)) (\<lambda>account_balance.
     let images_dir = joinpath (joinpath (joinpath base_dir ''data'') ''images'') ''liblibai'' in
     if \<not> makedirs_ok w then Inl OSError
     else
       and_then (py_get api_response ''images'' (VList [])) (\<lambda>images.
       and_then (py_iter images) (\<lambda>images.
       and_then (liblibai_images w images_dir 0 images) (\<lambda>images.
       let formatted_response =
             [(''id'', response_id),
              (''model'', get_or original_params ''model'' (VStr '''')),
              (''created'', VStr (now_created w)),
              (''images'', VList images),
              (''pointsCost'', points_cost),
              (''accountBalance'', account_balance)]
       in liblibai_size original_params formatted_response))))))"

subsection \<open>The polling loop\<close>

definition liblibai_status_endpoint :: string where
  "liblibai_status_endpoint = ''/api/generate/webui/status''"

text \<open>What one iteration does after its status query has been answered.\<close>

definition liblibai_on_status :: "string \<Rightarrow> world \<Rightarrow> dict \<Rightarrow> pyval \<Rightarrow> dict step" where
  "liblibai_on_status base_dir w validated_params task_status =
     flatten_step
       (and_then (py_get task_status ''code'' VNone) (\<lambda>code.
        if \<not> eq_int code 0
        then and_then (py_get task_status ''msg'' (VStr ''Unknown error'')) (\<lambda>error_msg.
             Inl (VendorError error_msg))
        else
          and_then (py_get task_status ''data'' (VDict [])) (\<lambda>task_data.
          and_then (py_get task_data ''generateStatus'' (VInt 0)) (\<lambda>generate_status.
          if eq_int generate_status 5
          then and_then
                 (liblibai_format_response_and_download_images base_dir w task_data
                    validated_params) (\<lambda>result. Inr (Return result))
          else if eq_int generate_status 6 \<or> eq_int generate_status 7
          then and_then (py_get task_data ''generateMsg'' (VStr ''Task failed or timed out''))
                 (\<lambda>error_msg. Inl (TaskFailed error_msg))
          else Inr Continue))))"

definition liblibai_poll_body ::
  "settings \<Rightarrow> string \<Rightarrow> world \<Rightarrow> string \<Rightarrow> dict \<Rightarrow> pyval \<Rightarrow> nat \<Rightarrow> event list \<times> dict step" where
  "liblibai_poll_body st base_dir w api_base_url validated_params generate_uuid i =
     (case generate_signature (keyed_hash w) st (clock_millis w (Suc i))
             (signature_nonce w (Suc i)) liblibai_status_endpoint of
        Inl e \<Rightarrow> ([Sleep 15], Raise e)
      | Inr status_signature_params \<Rightarrow>
          ([Sleep 15,
            QueryStatus (api_base_url @ liblibai_status_endpoint) status_signature_params
              generate_uuid],
           case reply_json (status_reply w i) of
             Inl e \<Rightarrow> Raise e
           | Inr task_status \<Rightarrow> liblibai_on_status base_dir w validated_params task_status))"

definition liblibai_poll ::
  "settings \<Rightarrow> string \<Rightarrow> world \<Rightarrow> string \<Rightarrow> dict \<Rightarrow> pyval \<Rightarrow> event list \<times> (error + dict)" where
  "liblibai_poll st base_dir w api_base_url validated_params generate_uuid =
     (case for_range (liblibai_poll_body st base_dir w api_base_url validated_params generate_uuid)
             [0..<120] of
        (evs, Continue) \<Rightarrow> (evs, Inl (TaskTimeout generate_uuid))
      | (evs, Return result) \<Rightarrow> (evs, Inr result)
      | (evs, Raise e) \<Rightarrow> (evs, Inl e))"

subsection \<open>\<open>call_model\<close>\<close>

definition liblibai_api_endpoint :: "string \<Rightarrow> dict \<Rightarrow> error + string" where
  "liblibai_api_endpoint model validated_params =
     (if model = ''star-3-alpha-t2i'' then Inr ''/api/generate/webui/text2img/ultra''
      else if model = ''star-3-alpha-i2i'' then Inr ''/api/generate/webui/img2img/ultra''
      else if model = ''liblib-custom''
      then and_then
             (py_contains ''sourceImage'' (get_or validated_params ''generateParams'' (VDict [])))
             (\<lambda>has_source.
              if has_source then Inr ''/api/generate/webui/img2img''
              else Inr ''/api/generate/webui/text2img'')
      else Inl (UnsupportedEndpoint model))"

text \<open>The body of the \<open>try\<close>.\<close>

definition liblibai_try ::
  "settings \<Rightarrow> string \<Rightarrow> world \<Rightarrow> string \<Rightarrow> string \<Rightarrow> dict \<Rightarrow> dict \<Rightarrow>
   event list \<times> (error + dict)" where
  "liblibai_try st base_dir w api_base_url api_endpoint signature_params validated_params =
     (case and_then (getitem validated_params ''templateUuid'') (\<lambda>template_uuid.
           and_then (getitem validated_params ''generateParams'') (\<lambda>generate_params.
           Inr [(''templateUuid'', template_uuid), (''generateParams'', generate_params)])) of
        Inl e \<Rightarrow> ([], Inl e)
      | Inr request_data \<Rightarrow>
          (let created =
                 [CreateTask (api_base_url @ api_endpoint) signature_params (VDict request_data)]
           in
           case and_then (reply_json (create_reply w)) (\<lambda>task_result.
                and_then (py_get task_result ''code'' VNone) (\<lambda>code.
                if \<not> eq_int code 0
                then and_then (py_get task_result ''msg'' (VStr ''Unknown error'')) (\<lambda>error_msg.
                     Inl (VendorError error_msg))
                else
                  and_then (py_get task_result ''data'' (VDict [])) (\<lambda>data.
                  and_then (py_get data ''generateUuid'' VNone) (\<lambda>generate_uuid.
                  if \<not> truthy generate_uuid then Inl (NoTaskId task_result)
                  else Inr generate_uuid)))) of
             Inl e \<Rightarrow> (created, Inl e)
           | Inr generate_uuid \<Rightarrow>
               (case liblibai_poll st base_dir w api_base_url validated_params generate_uuid of
                  (evs, r) \<Rightarrow> (created @ evs, r))))"

definition liblibai_call_model ::
  "settings \<Rightarrow> string \<Rightarrow> world \<Rightarrow> string \<Rightarrow> dict \<Rightarrow> event list \<times> (error + dict)" where
  "liblibai_call_model st base_dir w model parameters =
     (case liblibai_validate_parameters st model parameters of
        Inl e \<Rightarrow> ([], Inl e)
      | Inr validated_params \<Rightarrow>
          (let api_base_url =
                 (if LIBLIBAI_API_URL st = [] then ''https://openapi.liblibai.cloud''
                  else LIBLIBAI_API_URL st)
           in
           case liblibai_api_endpoint model validated_params of
             Inl e \<Rightarrow> ([], Inl e)
           | Inr api_endpoint \<Rightarrow>
               (case generate_signature (keyed_hash w) st (clock_millis w 0) (signature_nonce w 0)
                       api_endpoint of
                  Inl e \<Rightarrow> ([], Inl e)
                | Inr signature_params \<Rightarrow>
                    (case liblibai_try st base_dir w api_base_url api_endpoint signature_params
                            validated_params of
                       (evs, Inl e) \<Rightarrow> (evs, Inl (handle e))
                     | (evs, Inr result) \<Rightarrow> (evs, Inr result)))))"

(*DEFS-END*)

section \<open>Properties\<close>

subsection \<open>Dictionaries and results\<close>

lemma and_then_Inl [simp]: "and_then (Inl e) f = Inl e"
  by (simp add: and_then_def)

lemma and_then_Inr [simp]: "and_then (Inr x) f = f x"
  by (simp add: and_then_def)

lemma and_then_eq_Inr: "and_then m f = Inr y \<longleftrightarrow> (\<exists>x. m = Inr x \<and> f x = Inr y)"
  by (cases m) simp_all

lemma and_then_eq_Inl:
  "and_then m f = Inl e \<longleftrightarrow> m = Inl e \<or> (\<exists>x. m = Inr x \<and> f x = Inl e)"
  by (cases m) simp_all

lemma map_of_setitem: "map_of (setitem k v d) = (map_of d)(k \<mapsto> v)"
  by (simp add: setitem_def update_conv')

lemma has_key_setitem: "has_key k' (setitem k v d) = (k' = k \<or> has_key k' d)"
  by (simp add: has_key_def map_of_setitem)

lemma distinct_setitem: "distinct (map fst d) \<Longrightarrow> distinct (map fst (setitem k v d))"
  by (simp add: setitem_def distinct_update)

lemma getitem_eq_Inr: "getitem d k = Inr v \<longleftrightarrow> map_of d k = Some v"
  by (simp add: getitem_def split: option.splits)

lemma getitem_eq_Inl: "getitem d k = Inl e \<longleftrightarrow> map_of d k = None \<and> e = KeyError k"
  by (auto simp: getitem_def split: option.splits)

subsection \<open>Provider A: normalisation block by block\<close>

lemma aliyun_supported_models_default: "aliyun_supported_models default_settings =
  [''wanx2.1-t2i-turbo'', ''wanx2.1-t2i-plus'', ''wanx2.0-t2i-turbo'']"
  by code_simp

lemma norm_size_map:
  "norm_size d = Inr d' \<Longrightarrow>
   map_of d' = (map_of d)(''size'' \<mapsto> (case map_of d ''size'' of None \<Rightarrow> VStr ''1024*1024'' | Some v \<Rightarrow> v))"
  by (auto simp: norm_size_def has_key_def getitem_def map_of_setitem split: if_splits option.splits)

lemma norm_n_map:
  "norm_n int_str d = Inr d' \<Longrightarrow>
   (case map_of d ''n'' of
      None \<Rightarrow> map_of d' = (map_of d)(''n'' \<mapsto> VInt 1)
    | Some v \<Rightarrow> \<exists>i. py_int int_str v = Inr i \<and> map_of d' = (map_of d)(''n'' \<mapsto> VInt (min (max i 1) 4)))"
  by (auto simp: norm_n_def has_key_def getitem_def map_of_setitem and_then_eq_Inr split: if_splits option.splits)

lemma norm_seed_map:
  "norm_seed int_str d = Inr d' \<Longrightarrow>
   (case map_of d ''seed'' of
      None \<Rightarrow> d' = d
    | Some v \<Rightarrow> \<exists>i. py_int int_str v = Inr i \<and> map_of d' = (map_of d)(''seed'' \<mapsto> VInt i))"
  by (auto simp: norm_seed_def has_key_def getitem_def map_of_setitem and_then_eq_Inr split: if_splits option.splits)

lemma norm_negative_prompt_map:
  "map_of (norm_negative_prompt d) =
   (case map_of d ''negative_prompt'' of None \<Rightarrow> (map_of d)(''negative_prompt'' \<mapsto> VStr '''') | Some v \<Rightarrow> map_of d)"
  by (auto simp: norm_negative_prompt_def has_key_def map_of_setitem split: option.splits)

lemma norm_style_map:
  "map_of (norm_style d) =
   (case map_of d ''style'' of None \<Rightarrow> (map_of d)(''style'' \<mapsto> VStr ''<auto>'') | Some v \<Rightarrow> map_of d)"
  by (auto simp: norm_style_def has_key_def map_of_setitem split: option.splits)

lemma norm_ref_map:
  "map_of (norm_ref d) k =
   (if map_of d ''ref_img'' \<noteq> None \<and> map_of d k = None \<and> k = ''ref_strength'' then Some (VFloat (Finite 1 0))
    else if map_of d ''ref_img'' \<noteq> None \<and> map_of d k = None \<and> k = ''ref_mode'' then Some (VStr ''repaint'')
    else map_of d k)"
  by (auto simp: norm_ref_def has_key_def map_of_setitem Let_def)

text \<open>Each block keeps the keys of the dictionary distinct.\<close>

lemma norm_size_distinct: "norm_size d = Inr d' \<Longrightarrow> distinct (map fst d) \<Longrightarrow> distinct (map fst d')"
  by (auto simp: norm_size_def and_then_eq_Inr distinct_setitem split: if_splits)

lemma norm_n_distinct: "norm_n int_str d = Inr d' \<Longrightarrow> distinct (map fst d) \<Longrightarrow> distinct (map fst d')"
  by (auto simp: norm_n_def and_then_eq_Inr distinct_setitem split: if_splits)

lemma norm_seed_distinct: "norm_seed int_str d = Inr d' \<Longrightarrow> distinct (map fst d) \<Longrightarrow> distinct (map fst d')"
  by (auto simp: norm_seed_def and_then_eq_Inr distinct_setitem split: if_splits)

lemma norm_pure_distinct:
  "distinct (map fst d) \<Longrightarrow> distinct (map fst (norm_negative_prompt d))"
  "distinct (map fst d) \<Longrightarrow> distinct (map fst (norm_style d))"
  "distinct (map fst d) \<Longrightarrow> distinct (map fst (norm_ref d))"
  "distinct (map fst d) \<Longrightarrow> distinct (map fst (put_model m d))"
  by (simp_all add: norm_negative_prompt_def norm_style_def norm_ref_def put_model_def Let_def distinct_setitem)

lemma normalize_distinct:
  assumes "normalize int_str model d = Inr d'" "distinct (map fst d)"
  shows "distinct (map fst d')"
proof -
  from assms(1) obtain d1 d2 where
    s: "norm_size (put_model model d) = Inr d1" and n: "norm_n int_str d1 = Inr d2"
    and e: "norm_seed int_str (norm_ref (norm_style (norm_negative_prompt d2))) = Inr d'"
    by (auto simp: normalize_def and_then_eq_Inr)
  have "distinct (map fst d1)" using s assms(2) by (blast intro: norm_size_distinct norm_pure_distinct)
  then have "distinct (map fst d2)" using n by (blast intro: norm_n_distinct)
  then show ?thesis using e by (blast intro: norm_seed_distinct norm_pure_distinct)
qed

text \<open>The blocks leave every key that they do not name as it is.\<close>

lemma normalize_untouched:
  assumes "normalize int_str model d = Inr d'"
    and "k \<notin> {''model'', ''size'', ''n'', ''negative_prompt'', ''style'', ''seed'',
      ''ref_strength'', ''ref_mode''}"
  shows "map_of d' k = map_of d k"
proof -
  from assms(1) obtain d1 d2 where
    s: "norm_size (put_model model d) = Inr d1" and n: "norm_n int_str d1 = Inr d2"
    and e: "norm_seed int_str (norm_ref (norm_style (norm_negative_prompt d2))) = Inr d'"
    by (auto simp: normalize_def and_then_eq_Inr)
  have k: "k \<noteq> ''model''" "k \<noteq> ''size''" "k \<noteq> ''n''" "k \<noteq> ''negative_prompt''" "k \<noteq> ''style''"
    "k \<noteq> ''seed''" "k \<noteq> ''ref_strength''" "k \<noteq> ''ref_mode''"
    using assms(2) by auto
  have 1: "map_of d1 k = map_of d k"
    using norm_size_map[OF s] k by (simp add: put_model_def map_of_setitem)
  have 2: "map_of d2 k = map_of d1 k"
    using norm_n_map[OF n] k by (auto split: option.splits)
  have 3: "map_of (norm_ref (norm_style (norm_negative_prompt d2))) k = map_of d2 k"
    using k by (simp add: norm_ref_map norm_style_map norm_negative_prompt_map split: option.splits)
  have 4: "map_of d' k = map_of (norm_ref (norm_style (norm_negative_prompt d2))) k"
    using norm_seed_map[OF e] k by (auto split: option.splits)
  show ?thesis using 1 2 3 4 by simp
qed

lemma normalize_other_key:
  assumes "normalize int_str model d = Inr d'" "k \<notin> set recognized_keys"
  shows "map_of d' k = map_of d k"
  using assms by (intro normalize_untouched) (auto simp: recognized_keys_def)

lemma foldl_add_custom:
  "distinct (map fst xs) \<Longrightarrow>
   map_of (foldl add_custom ps xs) k =
     (case map_of xs k of
        Some v \<Rightarrow> if k \<notin> set exclude_keys \<and> k \<notin> set (map fst special_params) then Some v else map_of ps k
      | None \<Rightarrow> map_of ps k)"
proof (induction xs arbitrary: ps)
  case Nil
  then show ?case by simp
next
  case (Cons x xs)
  obtain a b where x: "x = (a, b)" by (cases x)
  from Cons.prems have d: "distinct (map fst xs)" and a: "a \<notin> fst ` set xs" by (auto simp: x)
  have none: "map_of xs a = None" using a by (simp add: map_of_eq_None_iff)
  show ?case
    using Cons.IH[OF d, of "add_custom ps x"] none
    by (auto simp: x add_custom_def map_of_setitem split: option.splits)
qed

lemma request_parameters_custom:
  assumes "distinct (map fst d)" "map_of d k = Some v"
    "k \<notin> set exclude_keys" "k \<notin> set (map fst special_params)"
  shows "map_of (request_parameters d) k = Some v"
  using assms by (simp add: request_parameters_def foldl_add_custom)

subsection \<open>Provider A: defaults\<close>

lemma normalize_blocks:
  assumes "normalize int_str model d = Inr d'"
  obtains d1 d2 where
    "norm_size (put_model model d) = Inr d1" "norm_n int_str d1 = Inr d2"
    "norm_seed int_str (norm_ref (norm_style (norm_negative_prompt d2))) = Inr d'"
  using assms by (auto simp: normalize_def and_then_eq_Inr)

text \<open>What a call that returns has put into the dictionary.\<close>

lemma validate_parameters_values:
  assumes "validate_parameters int_str st model parameters = Inr validated"
  shows
    "map_of validated ''size'' =
       Some (case map_of parameters ''size'' of None \<Rightarrow> VStr ''1024*1024'' | Some v \<Rightarrow> v) \<and>
     (case map_of parameters ''n'' of
        None \<Rightarrow> map_of validated ''n'' = Some (VInt 1)
      | Some v \<Rightarrow> \<exists>i. py_int int_str v = Inr i \<and> map_of validated ''n'' = Some (VInt (min (max i 1) 4))) \<and>
     (\<exists>i. map_of validated ''n'' = Some (VInt i) \<and> 1 \<le> i \<and> i \<le> 4) \<and>
     map_of validated ''negative_prompt'' =
       Some (case map_of parameters ''negative_prompt'' of None \<Rightarrow> VStr '''' | Some v \<Rightarrow> v) \<and>
     map_of validated ''style'' =
       Some (case map_of parameters ''style'' of None \<Rightarrow> VStr ''<auto>'' | Some v \<Rightarrow> v) \<and>
     (case map_of parameters ''seed'' of
        None \<Rightarrow> map_of validated ''seed'' = None
      | Some v \<Rightarrow> \<exists>i. py_int int_str v = Inr i \<and> map_of validated ''seed'' = Some (VInt i)) \<and>
     map_of validated ''ref_strength'' =
       (case map_of parameters ''ref_strength'' of
          Some v \<Rightarrow> Some v
        | None \<Rightarrow> if has_key ''ref_img'' parameters then Some (VFloat (Finite 1 0)) else None) \<and>
     map_of validated ''ref_mode'' =
       (case map_of parameters ''ref_mode'' of
          Some v \<Rightarrow> Some v
        | None \<Rightarrow> if has_key ''ref_img'' parameters then Some (VStr ''repaint'') else None)"
proof -
  from assms have n: "normalize int_str model parameters = Inr validated"
    by (auto simp: validate_parameters_def split: if_splits)
  from n obtain d1 d2 where
    s: "norm_size (put_model model parameters) = Inr d1" and nn: "norm_n int_str d1 = Inr d2"
    and e: "norm_seed int_str (norm_ref (norm_style (norm_negative_prompt d2))) = Inr validated"
    by (rule normalize_blocks)
  let ?d0 = "put_model model parameters"
  let ?d5 = "norm_ref (norm_style (norm_negative_prompt d2))"
  have m0: "map_of ?d0 = (map_of parameters)(''model'' \<mapsto> VStr model)"
    by (simp add: put_model_def map_of_setitem)
  note m1 = norm_size_map[OF s]
  note m2 = norm_n_map[OF nn]
  note m6 = norm_seed_map[OF e]
  have d1k: "\<And>k. k \<noteq> ''size'' \<Longrightarrow> k \<noteq> ''model'' \<Longrightarrow> map_of d1 k = map_of parameters k"
    using m1 m0 by simp
  have d2k: "\<And>k. k \<noteq> ''n'' \<Longrightarrow> map_of d2 k = map_of d1 k"
    using m2 by (auto split: option.splits)
  have vk: "\<And>k. k \<noteq> ''seed'' \<Longrightarrow> map_of validated k = map_of ?d5 k"
    using m6 by (auto split: option.splits)
  have size: "map_of validated ''size'' =
       Some (case map_of parameters ''size'' of None \<Rightarrow> VStr ''1024*1024'' | Some v \<Rightarrow> v)"
    using m1 m0 by (simp add: vk d2k norm_ref_map norm_style_map norm_negative_prompt_map
        split: option.splits)
  have vn: "map_of validated ''n'' = map_of d2 ''n''"
    by (simp add: vk norm_ref_map norm_style_map norm_negative_prompt_map split: option.splits)
  have n1: "map_of d1 ''n'' = map_of parameters ''n''"
    by (simp add: d1k)
  have nv: "case map_of parameters ''n'' of
        None \<Rightarrow> map_of validated ''n'' = Some (VInt 1)
      | Some v \<Rightarrow> \<exists>i. py_int int_str v = Inr i \<and> map_of validated ''n'' = Some (VInt (min (max i 1) 4))"
    using m2 by (auto simp: vn n1 split: option.splits)
  have nr: "\<exists>i. map_of validated ''n'' = Some (VInt i) \<and> 1 \<le> i \<and> i \<le> 4"
    using nv by (cases "map_of parameters ''n''") auto
  have np: "map_of validated ''negative_prompt'' =
       Some (case map_of parameters ''negative_prompt'' of None \<Rightarrow> VStr '''' | Some v \<Rightarrow> v)"
    by (simp add: vk d2k d1k norm_ref_map norm_style_map norm_negative_prompt_map
        split: option.splits)
  have st: "map_of validated ''style'' =
       Some (case map_of parameters ''style'' of None \<Rightarrow> VStr ''<auto>'' | Some v \<Rightarrow> v)"
    by (simp add: vk d2k d1k norm_ref_map norm_style_map norm_negative_prompt_map
        split: option.splits)
  have s5: "map_of ?d5 ''seed'' = map_of parameters ''seed''"
    by (simp add: d2k d1k norm_ref_map norm_style_map norm_negative_prompt_map
        split: option.splits)
  have seed: "case map_of parameters ''seed'' of
        None \<Rightarrow> map_of validated ''seed'' = None
      | Some v \<Rightarrow> \<exists>i. py_int int_str v = Inr i \<and> map_of validated ''seed'' = Some (VInt i)"
    using m6 by (auto simp: s5 split: option.splits)
  have ri: "map_of (norm_style (norm_negative_prompt d2)) ''ref_img'' = map_of parameters ''ref_img''"
    by (simp add: d2k d1k norm_style_map norm_negative_prompt_map split: option.splits)
  have rs0: "map_of (norm_style (norm_negative_prompt d2)) ''ref_strength'' = map_of parameters ''ref_strength''"
    by (simp add: d2k d1k norm_style_map norm_negative_prompt_map split: option.splits)
  have rm0: "map_of (norm_style (norm_negative_prompt d2)) ''ref_mode'' = map_of parameters ''ref_mode''"
    by (simp add: d2k d1k norm_style_map norm_negative_prompt_map split: option.splits)
  have rs: "map_of validated ''ref_strength'' =
       (case map_of parameters ''ref_strength'' of
          Some v \<Rightarrow> Some v
        | None \<Rightarrow> if has_key ''ref_img'' parameters then Some (VFloat (Finite 1 0)) else None)"
    by (simp add: vk norm_ref_map ri rs0 has_key_def split: option.splits)
  have rm: "map_of validated ''ref_mode'' =
       (case map_of parameters ''ref_mode'' of
          Some v \<Rightarrow> Some v
        | None \<Rightarrow> if has_key ''ref_img'' parameters then Some (VStr ''repaint'') else None)"
    by (simp add: vk norm_ref_map ri rm0 has_key_def split: option.splits)
  show ?thesis using size nv nr np st seed rs rm by blast
qed

text \<open>Which calls return: the only statements that can raise are the two coercions.\<close>

lemma norm_size_returns: "\<exists>d'. norm_size d = Inr d'"
  by (auto simp: norm_size_def has_key_def getitem_def split: option.splits)

lemma norm_n_returns:
  assumes "\<forall>v. map_of d ''n'' = Some v \<longrightarrow> (\<exists>i. py_int int_str v = Inr i)"
  shows "\<exists>d'. norm_n int_str d = Inr d'"
  using assms by (auto simp: norm_n_def has_key_def getitem_def split: option.splits)

lemma norm_seed_returns:
  assumes "\<forall>v. map_of d ''seed'' = Some v \<longrightarrow> (\<exists>i. py_int int_str v = Inr i)"
  shows "\<exists>d'. norm_seed int_str d = Inr d'"
  using assms by (auto simp: norm_seed_def has_key_def getitem_def split: option.splits)

lemma normalize_returns:
  assumes n: "\<forall>v. map_of d ''n'' = Some v \<longrightarrow> (\<exists>i. py_int int_str v = Inr i)"
    and s: "\<forall>v. map_of d ''seed'' = Some v \<longrightarrow> (\<exists>i. py_int int_str v = Inr i)"
  shows "\<exists>d'. normalize int_str model d = Inr d'"
proof -
  obtain d1 where r1: "norm_size (put_model model d) = Inr d1"
    using norm_size_returns by blast
  have m1: "\<And>k. k \<noteq> ''size'' \<Longrightarrow> k \<noteq> ''model'' \<Longrightarrow> map_of d1 k = map_of d k"
    using norm_size_map[OF r1] by (simp add: put_model_def map_of_setitem)
  have "map_of d1 ''n'' = map_of d ''n''"
    by (simp add: m1)
  then obtain d2 where r2: "norm_n int_str d1 = Inr d2"
    using norm_n_returns[of d1 int_str] n by auto
  have m2: "\<And>k. k \<noteq> ''n'' \<Longrightarrow> map_of d2 k = map_of d1 k"
    using norm_n_map[OF r2] by (auto split: option.splits)
  have "map_of (norm_ref (norm_style (norm_negative_prompt d2))) ''seed'' = map_of d ''seed''"
    by (simp add: m2 m1 norm_ref_map norm_style_map norm_negative_prompt_map
        split: option.splits)
  then obtain d' where
    r3: "norm_seed int_str (norm_ref (norm_style (norm_negative_prompt d2))) = Inr d'"
    using norm_seed_returns[of "norm_ref (norm_style (norm_negative_prompt d2))" int_str] s
    by auto
  show ?thesis by (simp add: normalize_def r1 r2 r3)
qed

text \<open>A coercion that raises ends the call with its exception.\<close>

lemma normalize_raises_n:
  assumes "map_of d ''n'' = Some v" "py_int int_str v = Inl e"
  shows "normalize int_str model d = Inl e"
proof -
  obtain d1 where r1: "norm_size (put_model model d) = Inr d1"
    using norm_size_returns by blast
  have "map_of d1 ''n'' = Some v"
    using norm_size_map[OF r1] assms(1) by (simp add: put_model_def map_of_setitem)
  then have "norm_n int_str d1 = Inl e"
    using assms(2) by (simp add: norm_n_def has_key_def getitem_def)
  then show ?thesis by (simp add: normalize_def r1)
qed

text \<open>
  Claim C4, with the style default as the code has it. For provider A, a supported model
  and a parameter dictionary that has \<open>prompt\<close> and whose \<open>n\<close> and \<open>seed\<close>, where supplied,
  are values that \<open>int()\<close> accepts, \<open>validate_parameters\<close> returns, and in what it returns:
  \<open>size\<close> is the caller's value or \<open>1024*1024\<close> when absent; \<open>n\<close> is 1 when absent and
  otherwise the caller's value coerced to an integer and clamped into the range 1 to 4;
  \<open>negative_prompt\<close> defaults to the empty string; \<open>style\<close> defaults to \<open><auto>\<close>;
  \<open>seed\<close>, when present, is coerced to an integer and stays absent otherwise;
  \<open>ref_strength\<close> and \<open>ref_mode\<close> default to 1.0 and \<open>repaint\<close> exactly when \<open>ref_img\<close> is
  supplied.
\<close>

theorem aliyun_validate_parameters_defaults:
  assumes "model \<in> set (aliyun_supported_models st)"
    and "has_key ''prompt'' parameters"
    and "\<forall>v. map_of parameters ''n'' = Some v \<longrightarrow> (\<exists>i. py_int int_str v = Inr i)"
    and "\<forall>v. map_of parameters ''seed'' = Some v \<longrightarrow> (\<exists>i. py_int int_str v = Inr i)"
  shows
    "\<exists>validated. validate_parameters int_str st model parameters = Inr validated \<and>
     map_of validated ''size'' =
       Some (case map_of parameters ''size'' of None \<Rightarrow> VStr ''1024*1024'' | Some v \<Rightarrow> v) \<and>
     (case map_of parameters ''n'' of
        None \<Rightarrow> map_of validated ''n'' = Some (VInt 1)
      | Some v \<Rightarrow> \<exists>i. py_int int_str v = Inr i \<and> map_of validated ''n'' = Some (VInt (min (max i 1) 4))) \<and>
     (\<exists>i. map_of validated ''n'' = Some (VInt i) \<and> 1 \<le> i \<and> i \<le> 4) \<and>
     map_of validated ''negative_prompt'' =
       Some (case map_of parameters ''negative_prompt'' of None \<Rightarrow> VStr '''' | Some v \<Rightarrow> v) \<and>
     map_of validated ''style'' =
       Some (case map_of parameters ''style'' of None \<Rightarrow> VStr ''<auto>'' | Some v \<Rightarrow> v) \<and>
     (case map_of parameters ''seed'' of
        None \<Rightarrow> map_of validated ''seed'' = None
      | Some v \<Rightarrow> \<exists>i. py_int int_str v = Inr i \<and> map_of validated ''seed'' = Some (VInt i)) \<and>
     map_of validated ''ref_strength'' =
       (case map_of parameters ''ref_strength'' of
          Some v \<Rightarrow> Some v
        | None \<Rightarrow> if has_key ''ref_img'' parameters then Some (VFloat (Finite 1 0)) else None) \<and>
     map_of validated ''ref_mode'' =
       (case map_of parameters ''ref_mode'' of
          Some v \<Rightarrow> Some v
        | None \<Rightarrow> if has_key ''ref_img'' parameters then Some (VStr ''repaint'') else None)"
proof -
  obtain validated where n: "normalize int_str model parameters = Inr validated"
    using normalize_returns[OF assms(3,4)] by blast
  have v: "validate_parameters int_str st model parameters = Inr validated"
    using assms(1,2) n by (simp add: validate_parameters_def)
  show ?thesis
    using v validate_parameters_values[OF v] by (intro exI[of _ validated] conjI) simp_all
qed

theorem aliyun_validate_parameters_defaults_witness:
  "''wanx2.1-t2i-turbo'' \<in> set (aliyun_supported_models default_settings) \<and>
   has_key ''prompt''
     [(''prompt'', VStr ''x''), (''n'', VInt 9), (''seed'', VStr '' 42''),
      (''ref_img'', VStr ''https://example.com/ref.png'')] \<and>
   py_int (int_of_string 4300) (VInt 9) = Inr 9 \<and>
   py_int (int_of_string 4300) (VStr '' 42'') = Inr 42 \<and>
   validate_parameters (int_of_string 4300) default_settings ''wanx2.1-t2i-turbo''
       [(''prompt'', VStr ''x''), (''n'', VInt 9), (''seed'', VStr '' 42''),
        (''ref_img'', VStr ''https://example.com/ref.png'')] =
     Inr [(''prompt'', VStr ''x''), (''n'', VInt 4), (''seed'', VInt 42),
          (''ref_img'', VStr ''https://example.com/ref.png''),
          (''model'', VStr ''wanx2.1-t2i-turbo''), (''size'', VStr ''1024*1024''),
          (''negative_prompt'', VStr ''''), (''style'', VStr ''<auto>''),
          (''ref_strength'', VFloat (Finite 1 0)), (''ref_mode'', VStr ''repaint'')]"
proof -
  let ?ps = "[(''prompt'', VStr ''x''), (''n'', VInt 9), (''seed'', VStr '' 42''),
      (''ref_img'', VStr ''https://example.com/ref.png'')]"
  have m: "''wanx2.1-t2i-turbo'' \<in> set (aliyun_supported_models default_settings)"
    by (simp add: aliyun_supported_models_default)
  have p: "has_key ''prompt'' ?ps"
    by (simp add: has_key_def)
  have i9: "py_int (int_of_string 4300) (VInt 9) = Inr 9"
    by simp
  have i42: "py_int (int_of_string 4300) (VStr '' 42'') = Inr 42"
    by code_simp
  have n: "\<forall>v. map_of ?ps ''n'' = Some v \<longrightarrow> (\<exists>i. py_int (int_of_string 4300) v = Inr i)"
    by simp
  have s: "\<forall>v. map_of ?ps ''seed'' = Some v \<longrightarrow> (\<exists>i. py_int (int_of_string 4300) v = Inr i)"
    using i42 by simp
  have v: "validate_parameters (int_of_string 4300) default_settings ''wanx2.1-t2i-turbo'' ?ps =
     Inr [(''prompt'', VStr ''x''), (''n'', VInt 4), (''seed'', VInt 42),
          (''ref_img'', VStr ''https://example.com/ref.png''),
          (''model'', VStr ''wanx2.1-t2i-turbo''), (''size'', VStr ''1024*1024''),
          (''negative_prompt'', VStr ''''), (''style'', VStr ''<auto>''),
          (''ref_strength'', VFloat (Finite 1 0)), (''ref_mode'', VStr ''repaint'')]"
    by code_simp
  show ?thesis
    using aliyun_validate_parameters_defaults[OF m p n s] m p i9 i42 v by simp
qed

text \<open>The default of \<open>style\<close> is the six characters \<open><auto>\<close>, not \<open>auto\<close>.\<close>

theorem aliyun_style_default_counterexample:
  "validate_parameters (int_of_string 4300) default_settings ''wanx2.1-t2i-turbo'' [(''prompt'', VStr ''x'')] =
     Inr [(''prompt'', VStr ''x''), (''model'', VStr ''wanx2.1-t2i-turbo''),
          (''size'', VStr ''1024*1024''), (''n'', VInt 1), (''negative_prompt'', VStr ''''),
          (''style'', VStr ''<auto>'')] \<and>
   map_of [(''prompt'', VStr ''x''), (''model'', VStr ''wanx2.1-t2i-turbo''),
          (''size'', VStr ''1024*1024''), (''n'', VInt 1), (''negative_prompt'', VStr ''''),
          (''style'', VStr ''<auto>'')] ''style'' \<noteq> Some (VStr ''auto'')"
  by code_simp

text \<open>The coercions raise type and value errors, never the error of a missing parameter.\<close>

lemma py_int_not_missing: "py_int int_str v \<noteq> Inl (MissingParameter k)"
proof (cases v)
  case (VFloat f)
  then show ?thesis by (cases f) simp_all
next
  case (VStr s)
  then show ?thesis by (simp split: option.splits)
qed simp_all

lemma normalize_not_missing: "normalize int_str model d \<noteq> Inl (MissingParameter k)"
  by (auto simp: normalize_def norm_size_def norm_n_def norm_seed_def and_then_eq_Inl
      getitem_eq_Inl py_int_not_missing split: if_splits)

subsection \<open>Provider A: the request body\<close>

lemma normalize_model_key:
  assumes "normalize int_str model d = Inr d'"
  shows "map_of d' ''model'' = Some (VStr model)"
proof -
  from assms(1) obtain d1 d2 where
    s: "norm_size (put_model model d) = Inr d1" and n: "norm_n int_str d1 = Inr d2"
    and e: "norm_seed int_str (norm_ref (norm_style (norm_negative_prompt d2))) = Inr d'"
    by (auto simp: normalize_def and_then_eq_Inr)
  have 1: "map_of d1 ''model'' = Some (VStr model)"
    using norm_size_map[OF s] by (simp add: put_model_def map_of_setitem)
  have 2: "map_of d2 ''model'' = map_of d1 ''model''"
    using norm_n_map[OF n] by (auto split: option.splits)
  have 3: "map_of (norm_ref (norm_style (norm_negative_prompt d2))) ''model'' = map_of d2 ''model''"
    by (simp add: norm_ref_map norm_style_map norm_negative_prompt_map split: option.splits)
  have 4: "map_of d' ''model'' = map_of (norm_ref (norm_style (norm_negative_prompt d2))) ''model''"
    using norm_seed_map[OF e] by (auto split: option.splits)
  show ?thesis using 1 2 3 4 by simp
qed

lemma truthy_get_or: "truthy (get_or d k VNone) \<Longrightarrow> \<exists>v. map_of d k = Some v"
  by (auto simp: get_or_def split: option.splits)

lemma request_input_returns:
  assumes "map_of d ''prompt'' = Some p"
  shows "\<exists>inp. request_input d = Inr inp"
proof -
  have a: "truthy (get_or d ''negative_prompt'' VNone) \<Longrightarrow> \<exists>v. getitem d ''negative_prompt'' = Inr v"
    using truthy_get_or[of d "''negative_prompt''"] by (simp add: getitem_eq_Inr)
  have b: "truthy (get_or d ''ref_img'' VNone) \<Longrightarrow> \<exists>v. getitem d ''ref_img'' = Inr v"
    using truthy_get_or[of d "''ref_img''"] by (simp add: getitem_eq_Inr)
  have p: "getitem d ''prompt'' = Inr p" using assms by (simp add: getitem_eq_Inr)
  show ?thesis
    using a b by (auto simp: request_input_def p)
qed

text \<open>
  Claim C5. For provider A, a key of the caller's parameters that is none of the
  recognized keys (model, prompt, negative_prompt, ref_img, size, n, style, seed,
  ref_strength, ref_mode) is still in the validated parameters with its original value,
  the request body is built, and its \<open>parameters\<close> object holds the key with that value.
\<close>

theorem aliyun_custom_keys_forwarded:
  assumes "distinct (map fst parameters)"
    and "validate_parameters int_str st model parameters = Inr validated"
    and "map_of parameters k = Some v"
    and "k \<notin> set recognized_keys"
  shows "map_of validated k = Some v \<and>
    (\<exists>inp. build_request_data validated =
       Inr [(''model'', VStr model), (''input'', VDict inp),
            (''parameters'', VDict (request_parameters validated))]) \<and>
    map_of (request_parameters validated) k = Some v"
proof -
  from assms(2) have n: "normalize int_str model parameters = Inr validated"
    and p: "has_key ''prompt'' parameters"
    by (auto simp: validate_parameters_def split: if_splits)
  have kv: "map_of validated k = Some v"
    using normalize_other_key[OF n assms(4)] assms(3) by simp
  have dv: "distinct (map fst validated)"
    using normalize_distinct[OF n assms(1)] .
  have k: "k \<notin> set exclude_keys" "k \<notin> set (map fst special_params)"
    using assms(4) by (auto simp: recognized_keys_def exclude_keys_def special_params_def)
  have rp: "map_of (request_parameters validated) k = Some v"
    using request_parameters_custom[OF dv kv k] .
  have "map_of validated ''prompt'' = map_of parameters ''prompt''"
    using n by (rule normalize_untouched) simp
  then obtain pv where "map_of validated ''prompt'' = Some pv"
    using p by (auto simp: has_key_def)
  then obtain inp where inp: "request_input validated = Inr inp"
    using request_input_returns by blast
  have m: "getitem validated ''model'' = Inr (VStr model)"
    using normalize_model_key[OF n] by (simp add: getitem_eq_Inr)
  have "build_request_data validated =
       Inr [(''model'', VStr model), (''input'', VDict inp),
            (''parameters'', VDict (request_parameters validated))]"
    by (simp add: build_request_data_def m inp)
  then show ?thesis using kv rp by blast
qed

theorem aliyun_custom_keys_forwarded_witness:
  "distinct (map fst [(''prompt'', VStr ''a cat''), (''watermark'', VBool False)]) \<and>
   validate_parameters (int_of_string 4300) default_settings ''wanx2.1-t2i-turbo''
       [(''prompt'', VStr ''a cat''), (''watermark'', VBool False)] =
     Inr [(''prompt'', VStr ''a cat''), (''watermark'', VBool False),
          (''model'', VStr ''wanx2.1-t2i-turbo''), (''size'', VStr ''1024*1024''),
          (''n'', VInt 1), (''negative_prompt'', VStr ''''), (''style'', VStr ''<auto>'')] \<and>
   ''watermark'' \<notin> set recognized_keys \<and>
   map_of (request_parameters
     [(''prompt'', VStr ''a cat''), (''watermark'', VBool False),
          (''model'', VStr ''wanx2.1-t2i-turbo''), (''size'', VStr ''1024*1024''),
          (''n'', VInt 1), (''negative_prompt'', VStr ''''), (''style'', VStr ''<auto>'')])
     ''watermark'' = Some (VBool False)"
proof -
  have d: "distinct (map fst [(''prompt'', VStr ''a cat''), (''watermark'', VBool False)])"
    by simp
  have v: "validate_parameters (int_of_string 4300) default_settings ''wanx2.1-t2i-turbo''
       [(''prompt'', VStr ''a cat''), (''watermark'', VBool False)] =
     Inr [(''prompt'', VStr ''a cat''), (''watermark'', VBool False),
          (''model'', VStr ''wanx2.1-t2i-turbo''), (''size'', VStr ''1024*1024''),
          (''n'', VInt 1), (''negative_prompt'', VStr ''''), (''style'', VStr ''<auto>'')]"
    by code_simp
  have m: "map_of [(''prompt'', VStr ''a cat''), (''watermark'', VBool False)] ''watermark'' =
     Some (VBool False)" by simp
  have k: "''watermark'' \<notin> set recognized_keys" by (simp add: recognized_keys_def)
  show ?thesis using aliyun_custom_keys_forwarded[OF d v m k] d v k by simp
qed

subsection \<open>Provider A: the caller's dictionary\<close>

text \<open>
  Claim C10. For provider A, \<open>validate_parameters\<close> does not change the caller's
  parameters dictionary, whether it returns or raises: every object that was in the store
  before the call, the caller's dictionary among them, is the same after it.
\<close>

theorem validate_parameters_heap_frame:
  assumes "parameters < length h"
    and "validate_parameters_heap int_str st model parameters h = (h', r)"
  shows "take (length h) h' = h \<and> h' ! parameters = h ! parameters"
proof -
  have t: "take (length h) h' = h"
    using assms(2)
    by (auto simp: validate_parameters_heap_def dict_copy_def Let_def
        split: if_splits sum.splits)
  have "h' ! parameters = take (length h) h' ! parameters"
    using assms(1) by simp
  then show ?thesis using t by simp
qed

theorem validate_parameters_heap_frame_witness:
  "(0::nat) < length [[(''prompt'', VStr ''x''), (''n'', VInt 9)]] \<and>
   validate_parameters_heap (int_of_string 4300) default_settings ''wanx2.1-t2i-turbo'' 0
       [[(''prompt'', VStr ''x''), (''n'', VInt 9)]] =
     ([[(''prompt'', VStr ''x''), (''n'', VInt 9)],
       [(''prompt'', VStr ''x''), (''n'', VInt 4), (''model'', VStr ''wanx2.1-t2i-turbo''),
        (''size'', VStr ''1024*1024''), (''negative_prompt'', VStr ''''),
        (''style'', VStr ''<auto>'')]], Inr 1) \<and>
   [[(''prompt'', VStr ''x''), (''n'', VInt 9)],
    [(''prompt'', VStr ''x''), (''n'', VInt 4), (''model'', VStr ''wanx2.1-t2i-turbo''),
     (''size'', VStr ''1024*1024''), (''negative_prompt'', VStr ''''),
     (''style'', VStr ''<auto>'')]] ! 0 = [(''prompt'', VStr ''x''), (''n'', VInt 9)]"
proof -
  have l: "(0::nat) < length [[(''prompt'', VStr ''x''), (''n'', VInt 9)]]"
    by simp
  have v: "validate_parameters_heap (int_of_string 4300) default_settings ''wanx2.1-t2i-turbo'' 0
       [[(''prompt'', VStr ''x''), (''n'', VInt 9)]] =
     ([[(''prompt'', VStr ''x''), (''n'', VInt 9)],
       [(''prompt'', VStr ''x''), (''n'', VInt 4), (''model'', VStr ''wanx2.1-t2i-turbo''),
        (''size'', VStr ''1024*1024''), (''negative_prompt'', VStr ''''),
        (''style'', VStr ''<auto>'')]], Inr 1)"
    by code_simp
  show ?thesis using validate_parameters_heap_frame[OF l v] l v by simp
qed

text \<open>The function on the store computes what the function on values computes.\<close>

lemma validate_parameters_heap_result:
  assumes "validate_parameters_heap int_str st model parameters h = (h', r)"
  shows "case validate_parameters int_str st model (h ! parameters) of
           Inl e \<Rightarrow> r = Inl e
         | Inr d \<Rightarrow> r = Inr (length h) \<and> h' ! length h = d"
  using assms
  by (auto simp: validate_parameters_heap_def validate_parameters_def normalize_def
      dict_copy_def Let_def split: if_splits sum.splits)

subsection \<open>Provider B: normalisation\<close>

lemma liblibai_supported_models_default: "liblibai_supported_models default_settings =
  [''star-3-alpha-t2i'', ''star-3-alpha-i2i'', ''liblib-custom'']"
  by code_simp


lemma gp_default_dict:
  assumes "map_of d ''generateParams'' = Some (VDict gp)"
  shows "\<exists>d' gp'. gp_default k v d = Inr d' \<and>
     map_of d' = (map_of d)(''generateParams'' \<mapsto> VDict gp') \<and>
     map_of gp' = (map_of gp)(k \<mapsto> (case map_of gp k of None \<Rightarrow> v | Some x \<Rightarrow> x))"
proof (cases "has_key k gp")
  case True
  then obtain x where x: "map_of gp k = Some x" by (auto simp: has_key_def)
  have "gp_default k v d = Inr d"
    using assms True by (simp add: gp_default_def getitem_def)
  moreover have "map_of d = (map_of d)(''generateParams'' \<mapsto> VDict gp)"
    using assms by (simp add: fun_upd_idem)
  moreover have "map_of gp = (map_of gp)(k \<mapsto> (case map_of gp k of None \<Rightarrow> v | Some x \<Rightarrow> x))"
    using x by (simp add: fun_upd_idem)
  ultimately show ?thesis by blast
next
  case False
  then have n: "map_of gp k = None" by (simp add: has_key_def)
  have "gp_default k v d = Inr (setitem ''generateParams'' (VDict (setitem k v gp)) d)"
    using assms False by (simp add: gp_default_def getitem_def)
  then show ?thesis using n by (auto simp: map_of_setitem)
qed

lemma gp_copy_dict:
  assumes "map_of d ''generateParams'' = Some (VDict gp)" "map_of d k = Some v"
  shows "\<exists>d' gp'. gp_copy k d = Inr d' \<and>
     map_of d' = (map_of d)(''generateParams'' \<mapsto> VDict gp') \<and>
     map_of gp' = (map_of gp)(k \<mapsto> (case map_of gp k of None \<Rightarrow> v | Some x \<Rightarrow> x))"
proof -
  have "gp_copy k d = gp_default k v d"
    using assms by (simp add: gp_copy_def gp_default_def getitem_def)
  then show ?thesis using gp_default_dict[OF assms(1)] by simp
qed

lemma aspect_default_dict:
  assumes "map_of d ''generateParams'' = Some (VDict gp)"
  shows "\<exists>d' gp'. aspect_default d = Inr d' \<and>
     map_of d' = (map_of d)(''generateParams'' \<mapsto> VDict gp') \<and>
     map_of gp' = (if has_key ''aspectRatio'' gp \<or> has_key ''imageSize'' gp then map_of gp
                   else (map_of gp)(''aspectRatio'' \<mapsto> VStr ''portrait''))"
proof (cases "has_key ''aspectRatio'' gp \<or> has_key ''imageSize'' gp")
  case True
  then have "aspect_default d = Inr d"
    using assms by (auto simp: aspect_default_def getitem_def)
  moreover have "map_of d = (map_of d)(''generateParams'' \<mapsto> VDict gp)"
    using assms by (simp add: fun_upd_idem)
  ultimately show ?thesis using True by auto
next
  case False
  then have "aspect_default d =
     Inr (setitem ''generateParams'' (VDict (setitem ''aspectRatio'' (VStr ''portrait'') gp)) d)"
    using assms by (simp add: aspect_default_def getitem_def)
  then show ?thesis using False by (auto simp: map_of_setitem)
qed


lemma gp_default_step:
  assumes "map_of d ''generateParams'' = Some (VDict gp)"
  obtains d' gp' where "gp_default k v d = Inr d'"
    "map_of d' ''generateParams'' = Some (VDict gp')"
    "\<And>j. j \<noteq> ''generateParams'' \<Longrightarrow> map_of d' j = map_of d j"
    "map_of gp' k = Some (case map_of gp k of None \<Rightarrow> v | Some x \<Rightarrow> x)"
    "\<And>j. j \<noteq> k \<Longrightarrow> map_of gp' j = map_of gp j"
proof -
  from gp_default_dict[OF assms, of k v] obtain d' gp' where
    r: "gp_default k v d = Inr d'"
    and m: "map_of d' = (map_of d)(''generateParams'' \<mapsto> VDict gp')"
    and g: "map_of gp' = (map_of gp)(k \<mapsto> (case map_of gp k of None \<Rightarrow> v | Some x \<Rightarrow> x))"
    by blast
  show ?thesis
    by (rule that[of d' gp']) (simp_all add: r m g)
qed

lemma gp_copy_step:
  assumes "map_of d ''generateParams'' = Some (VDict gp)" "map_of d k = Some v"
  obtains d' gp' where "gp_copy k d = Inr d'"
    "map_of d' ''generateParams'' = Some (VDict gp')"
    "\<And>j. j \<noteq> ''generateParams'' \<Longrightarrow> map_of d' j = map_of d j"
    "map_of gp' k = Some (case map_of gp k of None \<Rightarrow> v | Some x \<Rightarrow> x)"
    "\<And>j. j \<noteq> k \<Longrightarrow> map_of gp' j = map_of gp j"
proof -
  from gp_copy_dict[OF assms] obtain d' gp' where
    r: "gp_copy k d = Inr d'"
    and m: "map_of d' = (map_of d)(''generateParams'' \<mapsto> VDict gp')"
    and g: "map_of gp' = (map_of gp)(k \<mapsto> (case map_of gp k of None \<Rightarrow> v | Some x \<Rightarrow> x))"
    by blast
  show ?thesis
    by (rule that[of d' gp']) (simp_all add: r m g)
qed

lemma aspect_default_step:
  assumes "map_of d ''generateParams'' = Some (VDict gp)"
  obtains d' gp' where "aspect_default d = Inr d'"
    "map_of d' ''generateParams'' = Some (VDict gp')"
    "\<And>j. j \<noteq> ''generateParams'' \<Longrightarrow> map_of d' j = map_of d j"
    "map_of gp' ''aspectRatio'' =
       (if has_key ''aspectRatio'' gp \<or> has_key ''imageSize'' gp then map_of gp ''aspectRatio''
        else Some (VStr ''portrait''))"
    "\<And>j. j \<noteq> ''aspectRatio'' \<Longrightarrow> map_of gp' j = map_of gp j"
proof -
  from aspect_default_dict[OF assms] obtain d' gp' where
    r: "aspect_default d = Inr d'"
    and m: "map_of d' = (map_of d)(''generateParams'' \<mapsto> VDict gp')"
    and g: "map_of gp' = (if has_key ''aspectRatio'' gp \<or> has_key ''imageSize'' gp then map_of gp
                   else (map_of gp)(''aspectRatio'' \<mapsto> VStr ''portrait''))"
    by blast
  show ?thesis
    by (rule that[of d' gp']) (simp_all add: r m g)
qed

lemma ensure_generate_params_dict:
  assumes "get_or parameters ''generateParams'' (VDict []) = VDict gp"
  shows "map_of (ensure_generate_params (setitem ''model'' m parameters)) ''generateParams'' =
           Some (VDict gp)"
    and "\<And>j. j \<noteq> ''generateParams'' \<Longrightarrow> j \<noteq> ''model'' \<Longrightarrow>
           map_of (ensure_generate_params (setitem ''model'' m parameters)) j = map_of parameters j"
  using assms
  by (auto simp: ensure_generate_params_def has_key_def map_of_setitem get_or_def
      split: option.splits)

text \<open>
  Claim C6. For provider B and model \<open>star-3-alpha-t2i\<close>, the parameters
  \<open>{prompt: "a cat"}\<close> normalize to a request with \<open>generateParams.prompt = "a cat"\<close>,
  \<open>generateParams.aspectRatio = "portrait"\<close>, \<open>generateParams.imgCount = 1\<close> and the
  text-to-image template; and for any parameters with a prompt whose \<open>generateParams\<close>
  is absent or a dictionary, \<open>aspectRatio\<close> is set to \<open>portrait\<close> only when neither
  \<open>aspectRatio\<close> nor \<open>imageSize\<close> is in \<open>generateParams\<close>, and is left as it was
  otherwise.
\<close>

theorem liblibai_t2i_defaults:
  assumes "''star-3-alpha-t2i'' \<in> set (liblibai_supported_models st)"
    and "map_of parameters ''prompt'' = Some p"
    and "get_or parameters ''generateParams'' (VDict []) = VDict gp"
  shows
    "liblibai_validate_parameters default_settings ''star-3-alpha-t2i''
         [(''prompt'', VStr ''a cat'')] =
       Inr [(''prompt'', VStr ''a cat''), (''model'', VStr ''star-3-alpha-t2i''),
            (''generateParams'',
             VDict [(''prompt'', VStr ''a cat''), (''aspectRatio'', VStr ''portrait''),
                    (''imgCount'', VInt 1)]),
            (''templateUuid'', VStr ''5d7e67009b344550bc1aa6ccbfa1d7f4'')] \<and>
     (\<exists>validated gp'.
        liblibai_validate_parameters st ''star-3-alpha-t2i'' parameters = Inr validated \<and>
        map_of validated ''generateParams'' = Some (VDict gp') \<and>
        map_of gp' ''prompt'' = Some (case map_of gp ''prompt'' of None \<Rightarrow> p | Some x \<Rightarrow> x) \<and>
        map_of gp' ''aspectRatio'' =
          (if has_key ''aspectRatio'' gp \<or> has_key ''imageSize'' gp
           then map_of gp ''aspectRatio'' else Some (VStr ''portrait'')) \<and>
        map_of gp' ''imgCount'' =
          Some (case map_of gp ''imgCount'' of None \<Rightarrow> VInt 1 | Some x \<Rightarrow> x) \<and>
        map_of validated ''templateUuid'' =
          Some (case map_of parameters ''templateUuid'' of
                  None \<Rightarrow> VStr ''5d7e67009b344550bc1aa6ccbfa1d7f4'' | Some u \<Rightarrow> u))"
proof -
  have scenario: "liblibai_validate_parameters default_settings ''star-3-alpha-t2i''
         [(''prompt'', VStr ''a cat'')] =
       Inr [(''prompt'', VStr ''a cat''), (''model'', VStr ''star-3-alpha-t2i''),
            (''generateParams'',
             VDict [(''prompt'', VStr ''a cat''), (''aspectRatio'', VStr ''portrait''),
                    (''imgCount'', VInt 1)]),
            (''templateUuid'', VStr ''5d7e67009b344550bc1aa6ccbfa1d7f4'')]"
    by code_simp
  define d0 where "d0 = setitem ''model'' (VStr ''star-3-alpha-t2i'') parameters"
  define d1 where "d1 = ensure_generate_params d0"
  have g1: "map_of d1 ''generateParams'' = Some (VDict gp)"
    and o1: "\<And>j. j \<noteq> ''generateParams'' \<Longrightarrow> j \<noteq> ''model'' \<Longrightarrow> map_of d1 j = map_of parameters j"
    unfolding d1_def d0_def using ensure_generate_params_dict[OF assms(3)] by blast+
  have p0: "has_key ''prompt'' d0"
    using assms(2) by (simp add: d0_def has_key_def map_of_setitem)
  have p1: "map_of d1 ''prompt'' = Some p"
    using assms(2) by (simp add: o1)
  from gp_copy_step[OF g1 p1] obtain d2 gp2 where
    r2: "gp_copy ''prompt'' d1 = Inr d2" and g2: "map_of d2 ''generateParams'' = Some (VDict gp2)"
    and o2: "\<And>j. j \<noteq> ''generateParams'' \<Longrightarrow> map_of d2 j = map_of d1 j"
    and k2: "map_of gp2 ''prompt'' = Some (case map_of gp ''prompt'' of None \<Rightarrow> p | Some x \<Rightarrow> x)"
    and n2: "\<And>j. j \<noteq> ''prompt'' \<Longrightarrow> map_of gp2 j = map_of gp j"
    by blast
  from aspect_default_step[OF g2] obtain d3 gp3 where
    r3: "aspect_default d2 = Inr d3" and g3: "map_of d3 ''generateParams'' = Some (VDict gp3)"
    and o3: "\<And>j. j \<noteq> ''generateParams'' \<Longrightarrow> map_of d3 j = map_of d2 j"
    and k3: "map_of gp3 ''aspectRatio'' =
       (if has_key ''aspectRatio'' gp2 \<or> has_key ''imageSize'' gp2 then map_of gp2 ''aspectRatio''
        else Some (VStr ''portrait''))"
    and n3: "\<And>j. j \<noteq> ''aspectRatio'' \<Longrightarrow> map_of gp3 j = map_of gp2 j"
    by blast
  from gp_default_step[OF g3, of "''imgCount''" "VInt 1"] obtain d4 gp4 where
    r4: "gp_default ''imgCount'' (VInt 1) d3 = Inr d4"
    and g4: "map_of d4 ''generateParams'' = Some (VDict gp4)"
    and o4: "\<And>j. j \<noteq> ''generateParams'' \<Longrightarrow> map_of d4 j = map_of d3 j"
    and k4: "map_of gp4 ''imgCount'' =
       Some (case map_of gp3 ''imgCount'' of None \<Rightarrow> VInt 1 | Some x \<Rightarrow> x)"
    and n4: "\<And>j. j \<noteq> ''imgCount'' \<Longrightarrow> map_of gp4 j = map_of gp3 j"
    by blast
  let ?v = "template_default ''5d7e67009b344550bc1aa6ccbfa1d7f4'' d4"
  have res: "liblibai_validate_parameters st ''star-3-alpha-t2i'' parameters = Inr ?v"
    using assms(1) p0
    by (simp add: liblibai_validate_parameters_def validate_t2i_def Let_def
        d0_def[symmetric] d1_def[symmetric] r2 r3 r4)
  have t4: "map_of d4 ''templateUuid'' = map_of parameters ''templateUuid''"
    by (simp add: o4 o3 o2 o1)
  have vg: "map_of ?v ''generateParams'' = Some (VDict gp4)"
    by (simp add: template_default_def map_of_setitem g4)
  have vt: "map_of ?v ''templateUuid'' =
          Some (case map_of parameters ''templateUuid'' of
                  None \<Rightarrow> VStr ''5d7e67009b344550bc1aa6ccbfa1d7f4'' | Some u \<Rightarrow> u)"
    using t4 by (auto simp: template_default_def map_of_setitem has_key_def split: option.splits)
  have a: "map_of gp4 ''prompt'' = Some (case map_of gp ''prompt'' of None \<Rightarrow> p | Some x \<Rightarrow> x)"
    by (simp add: n4 n3 k2)
  have b: "map_of gp4 ''aspectRatio'' =
          (if has_key ''aspectRatio'' gp \<or> has_key ''imageSize'' gp
           then map_of gp ''aspectRatio'' else Some (VStr ''portrait''))"
    by (simp add: n4 k3 has_key_def n2)
  have c: "map_of gp4 ''imgCount'' =
          Some (case map_of gp ''imgCount'' of None \<Rightarrow> VInt 1 | Some x \<Rightarrow> x)"
    by (simp add: k4 n3 n2)
  show ?thesis using scenario res vg vt a b c by blast
qed

theorem liblibai_t2i_defaults_witness:
  "''star-3-alpha-t2i'' \<in> set (liblibai_supported_models default_settings) \<and>
   map_of [(''prompt'', VStr ''a cat''),
           (''generateParams'', VDict [(''imageSize'', VDict [(''width'', VInt 512)])])]
      ''prompt'' = Some (VStr ''a cat'') \<and>
   get_or [(''prompt'', VStr ''a cat''),
           (''generateParams'', VDict [(''imageSize'', VDict [(''width'', VInt 512)])])]
      ''generateParams'' (VDict []) = VDict [(''imageSize'', VDict [(''width'', VInt 512)])] \<and>
   liblibai_validate_parameters default_settings ''star-3-alpha-t2i''
      [(''prompt'', VStr ''a cat''),
       (''generateParams'', VDict [(''imageSize'', VDict [(''width'', VInt 512)])])] =
     Inr [(''prompt'', VStr ''a cat''),
          (''generateParams'',
           VDict [(''imageSize'', VDict [(''width'', VInt 512)]), (''prompt'', VStr ''a cat''),
                  (''imgCount'', VInt 1)]),
          (''model'', VStr ''star-3-alpha-t2i''),
          (''templateUuid'', VStr ''5d7e67009b344550bc1aa6ccbfa1d7f4'')]"
proof -
  have m: "''star-3-alpha-t2i'' \<in> set (liblibai_supported_models default_settings)"
    by (simp add: liblibai_supported_models_default)
  have p: "map_of [(''prompt'', VStr ''a cat''),
           (''generateParams'', VDict [(''imageSize'', VDict [(''width'', VInt 512)])])]
      ''prompt'' = Some (VStr ''a cat'')"
    by simp
  have g: "get_or [(''prompt'', VStr ''a cat''),
           (''generateParams'', VDict [(''imageSize'', VDict [(''width'', VInt 512)])])]
      ''generateParams'' (VDict []) = VDict [(''imageSize'', VDict [(''width'', VInt 512)])]"
    by (simp add: get_or_def)
  have v: "liblibai_validate_parameters default_settings ''star-3-alpha-t2i''
      [(''prompt'', VStr ''a cat''),
       (''generateParams'', VDict [(''imageSize'', VDict [(''width'', VInt 512)])])] =
     Inr [(''prompt'', VStr ''a cat''),
          (''generateParams'',
           VDict [(''imageSize'', VDict [(''width'', VInt 512)]), (''prompt'', VStr ''a cat''),
                  (''imgCount'', VInt 1)]),
          (''model'', VStr ''star-3-alpha-t2i''),
          (''templateUuid'', VStr ''5d7e67009b344550bc1aa6ccbfa1d7f4'')]"
    by code_simp
  show ?thesis using liblibai_t2i_defaults[OF m p g] m p g v by simp
qed





subsection \<open>The artifact locator\<close>



subsection \<open>Provider B: the request signer\<close>

lemma of_char_less_256: "(of_char c :: nat) < 256"
  by (cases c) (simp add: of_char_def)

lemma urlsafe_b64_char:
  assumes "n < 64"
  shows "urlsafe_translation (b64_char n) = b64url_char n"
proof -
  have m: "map urlsafe_translation b64_alphabet = b64url_alphabet"
    by (simp add: b64_alphabet_def b64url_alphabet_def urlsafe_translation_def)
  have l: "length b64_alphabet = 64"
    by (simp add: b64_alphabet_def)
  have "b64url_char n = map urlsafe_translation b64_alphabet ! n"
    by (simp add: b64url_char_def m)
  also have "\<dots> = urlsafe_translation (b64_alphabet ! n)"
    using assms l by simp
  finally show ?thesis by (simp add: b64_char_def)
qed

lemma b64url_char_not_pad:
  assumes "n < 64"
  shows "b64url_char n \<noteq> CHR ''=''"
proof -
  have s: "CHR ''='' \<notin> set b64url_alphabet"
    by (simp add: b64url_alphabet_def)
  have l: "length b64url_alphabet = 64"
    by (simp add: b64url_alphabet_def)
  have "b64url_alphabet ! n \<in> set b64url_alphabet"
    using assms l by simp
  then show ?thesis using s by (auto simp: b64url_char_def)
qed

lemma b64_index_bounds:
  fixes x y z :: nat
  assumes "x < 256" "y < 256" "z < 256"
  shows "x div 4 < 64" "(x mod 4) * 16 < 64" "(x mod 4) * 16 + y div 16 < 64"
    "(y mod 16) * 4 < 64" "(y mod 16) * 4 + z div 64 < 64" "z mod 64 < 64"
  using assms by simp_all

lemma b64_indices:
  "(of_char a :: nat) div 4 < 64"
  "((of_char a :: nat) mod 4) * 16 < 64"
  "((of_char a :: nat) mod 4) * 16 + (of_char b :: nat) div 16 < 64"
  "((of_char b :: nat) mod 16) * 4 < 64"
  "((of_char b :: nat) mod 16) * 4 + (of_char c :: nat) div 64 < 64"
  "(of_char c :: nat) mod 64 < 64"
  using b64_index_bounds[OF of_char_less_256[of a] of_char_less_256[of b] of_char_less_256[of c]]
  by blast+

lemmas urlsafe_b64_indices = b64_indices[THEN urlsafe_b64_char]

lemmas b64url_indices_not_pad = b64_indices[THEN b64url_char_not_pad]

lemma urlsafe_translation_pad: "urlsafe_translation CHR ''='' = CHR ''=''"
  by (simp add: urlsafe_translation_def)

lemma urlsafe_b64encode_padding:
  "\<exists>k. urlsafe_b64encode bs = b64url_unpadded bs @ replicate k CHR ''=''"
proof (induction bs rule: b64encode.induct)
  case 1
  show ?case by (simp add: urlsafe_b64encode_def)
next
  case (2 a)
  have "urlsafe_b64encode [a] = b64url_unpadded [a] @ replicate 2 CHR ''=''"
    by (simp only: urlsafe_b64encode_def b64encode.simps b64url_unpadded.simps Let_def
        list.map urlsafe_b64_indices urlsafe_translation_pad numeral_2_eq_2
        replicate.simps append.simps)
  then show ?case by blast
next
  case (3 a b)
  have "urlsafe_b64encode [a, b] = b64url_unpadded [a, b] @ replicate 1 CHR ''=''"
    by (simp only: urlsafe_b64encode_def b64encode.simps b64url_unpadded.simps Let_def
        list.map urlsafe_b64_indices urlsafe_translation_pad One_nat_def
        replicate.simps append.simps)
  then show ?case by blast
next
  case (4 a b c rest)
  then obtain k where k: "map urlsafe_translation (b64encode rest) =
      b64url_unpadded rest @ replicate k CHR ''=''"
    unfolding urlsafe_b64encode_def by blast
  have "urlsafe_b64encode (a # b # c # rest) =
      b64url_unpadded (a # b # c # rest) @ replicate k CHR ''=''"
    by (simp only: urlsafe_b64encode_def b64encode.simps b64url_unpadded.simps Let_def
        list.map map_append urlsafe_b64_indices k append.simps append_assoc)
  then show ?case by blast
qed

lemma b64url_unpadded_no_pad: "CHR ''='' \<notin> set (b64url_unpadded bs)"
proof (induction bs rule: b64url_unpadded.induct)
  case 1
  show ?case by simp
next
  case (2 a)
  show ?case
    using b64url_indices_not_pad(1,2)[of a] by (auto simp: Let_def)
next
  case (3 a b)
  show ?case
    using b64url_indices_not_pad(1)[of a] b64url_indices_not_pad(3)[of a b]
      b64url_indices_not_pad(4)[of b]
    by (auto simp: Let_def)
next
  case (4 a b c rest)
  then show ?case
    using b64url_indices_not_pad(1)[of a] b64url_indices_not_pad(3)[of a b]
      b64url_indices_not_pad(5)[of b c] b64url_indices_not_pad(6)[of c]
    by (auto simp: Let_def)
qed

lemma rstrip_char_padding:
  assumes "c \<notin> set xs"
  shows "rstrip_char c (xs @ replicate k c) = xs"
proof -
  have 1: "dropWhile (\<lambda>x. x = c) (replicate k c @ rev xs) = dropWhile (\<lambda>x. x = c) (rev xs)"
    by (simp add: dropWhile_append)
  have 2: "dropWhile (\<lambda>x. x = c) (rev xs) = rev xs"
    using assms by (cases "rev xs") auto
  show ?thesis
    by (simp add: rstrip_char_def 1 2)
qed

lemma rstrip_urlsafe_b64encode:
  "rstrip_char CHR ''='' (urlsafe_b64encode bs) = b64url_unpadded bs"
proof -
  obtain k where "urlsafe_b64encode bs = b64url_unpadded bs @ replicate k CHR ''=''"
    using urlsafe_b64encode_padding by blast
  then show ?thesis
    by (simp add: rstrip_char_padding b64url_unpadded_no_pad)
qed

text \<open>
  Claim C8. For provider B: with an access key and a secret key configured, the signer
  returns the access key, the time stamp in milliseconds, the nonce, and as signature the
  keyed hash, under the secret key, of the resource path, the time stamp and the nonce
  joined by \<open>&\<close>, in URL-safe base 64 without padding; with the access key or the secret
  key empty it raises the error of missing keys.
\<close>

theorem generate_signature_correct:
  "(LIBLIBAI_ACCESS_KEY st \<noteq> [] \<and> LIBLIBAI_SECRET_KEY st \<noteq> [] \<longrightarrow>
      generate_signature hmac_sha1 st time_millis uuid4 uri =
        Inr [(''AccessKey'', VStr (LIBLIBAI_ACCESS_KEY st)),
             (''Signature'',
              VStr (b64url_unpadded
                (hmac_sha1 (utf8_encode (LIBLIBAI_SECRET_KEY st))
                   (utf8_encode (uri @ ''&'' @ string_of_nat time_millis @ ''&'' @ uuid4))))),
             (''Timestamp'', VStr (string_of_nat time_millis)),
             (''SignatureNonce'', VStr uuid4)]) \<and>
   (LIBLIBAI_ACCESS_KEY st = [] \<or> LIBLIBAI_SECRET_KEY st = [] \<longrightarrow>
      generate_signature hmac_sha1 st time_millis uuid4 uri = Inl KeysNotConfigured)"
  by (simp add: generate_signature_def Let_def rstrip_urlsafe_b64encode)

theorem generate_signature_correct_witness:
  "LIBLIBAI_ACCESS_KEY (default_settings\<lparr>LIBLIBAI_ACCESS_KEY := ''ak'',
       LIBLIBAI_SECRET_KEY := ''sk''\<rparr>) \<noteq> [] \<and>
   LIBLIBAI_SECRET_KEY (default_settings\<lparr>LIBLIBAI_ACCESS_KEY := ''ak'',
       LIBLIBAI_SECRET_KEY := ''sk''\<rparr>) \<noteq> [] \<and>
   generate_signature example_hmac
     (default_settings\<lparr>LIBLIBAI_ACCESS_KEY := ''ak'', LIBLIBAI_SECRET_KEY := ''sk''\<rparr>)
     1700000000000 ''6f1c'' ''/api/generate/webui/status'' =
     Inr [(''AccessKey'', VStr ''ak''), (''Signature'', VStr ''L2E''),
          (''Timestamp'', VStr ''1700000000000''), (''SignatureNonce'', VStr ''6f1c'')] \<and>
   LIBLIBAI_ACCESS_KEY default_settings = [] \<and>
   generate_signature example_hmac default_settings 1700000000000 ''6f1c''
     ''/api/generate/webui/status'' = Inl KeysNotConfigured"
proof -
  let ?st = "default_settings\<lparr>LIBLIBAI_ACCESS_KEY := ''ak'', LIBLIBAI_SECRET_KEY := ''sk''\<rparr>"
  have a: "LIBLIBAI_ACCESS_KEY ?st \<noteq> []" "LIBLIBAI_SECRET_KEY ?st \<noteq> []"
    by simp_all
  have e: "LIBLIBAI_ACCESS_KEY default_settings = []"
    by (simp add: default_settings_def)
  have d: "char_of (48::nat) = CHR ''0''" "char_of (49::nat) = CHR ''1''"
    "char_of (55::nat) = CHR ''7''"
    by code_simp+
  have ts: "string_of_nat 1700000000000 = ''1700000000000''"
    by (simp add: d)
  have sig: "rstrip_char CHR ''=''
      (urlsafe_b64encode (example_hmac (utf8_encode ''sk'')
         (utf8_encode ''/api/generate/webui/status&1700000000000&6f1c''))) = ''L2E''"
    by code_simp
  have v: "generate_signature example_hmac ?st 1700000000000 ''6f1c''
     ''/api/generate/webui/status'' =
     Inr [(''AccessKey'', VStr ''ak''), (''Signature'', VStr ''L2E''),
          (''Timestamp'', VStr ''1700000000000''), (''SignatureNonce'', VStr ''6f1c'')]"
    by (simp add: generate_signature_def Let_def ts sig del: string_of_nat.simps)
  show ?thesis
    using generate_signature_correct[of ?st example_hmac 1700000000000 "''6f1c''"
        "''/api/generate/webui/status''"]
      generate_signature_correct[of default_settings example_hmac 1700000000000 "''6f1c''"
        "''/api/generate/webui/status''"]
      a e v
    by (simp del: string_of_nat.simps add: ts)
qed

(*THMS-END*)

end
